theory Spec2Isabelle
  imports Complex_Main "HOL-Library.AList"
begin

section \<open>World State Store (GameState.ts)\<close>

text \<open>
  A JavaScript \<open>number\<close> is modelled as a real: no rounding, no NaN, no infinities.
  Strings are \<open>string\<close>.  Objects used as dictionaries are association lists,
  read with \<open>map_of\<close> and written with \<open>AList.update\<close> (an existing key keeps its
  position, a new key goes to the end, as in a JavaScript object).
\<close>

datatype point = Point (px: real) (py: real)

datatype facing = FLeft | FRight

datatype flag_value = FBool bool | FNum real | FStr string

record RoomState =
  disabledHotspots :: "string list"
  removedCharacters :: "string list"
  customFlags :: "(string \<times> flag_value) list"

record GameState =
  currentRoom :: string
  playerPosition :: point
  playerFacing :: facing
  inventory :: "string list"
  flags :: "(string \<times> flag_value) list"
  visitedRooms :: "string list"
  solvedPuzzles :: "string list"
  reputation :: real
  dialogueHistory :: "string list"
  selectedChoices :: "string list"
  roomStates :: "(string \<times> RoomState) list"

definition createInitialState :: GameState where
  "createInitialState =
     \<lparr> currentRoom = ''sinkhole'', playerPosition = Point 480 450, playerFacing = FRight,
       inventory = [], flags = [], visitedRooms = [], solvedPuzzles = [], reputation = 0,
       dialogueHistory = [], selectedChoices = [], roomStates = [] \<rparr>"

definition hasItem :: "string \<Rightarrow> GameState \<Rightarrow> bool" where
  "hasItem itemId gs = (itemId \<in> set (inventory gs))"


definition hasSelectedChoice :: "string \<Rightarrow> GameState \<Rightarrow> bool" where
  "hasSelectedChoice choiceId gs = (choiceId \<in> set (selectedChoices gs))"

definition emptyRoomState :: RoomState where
  "emptyRoomState = \<lparr> disabledHotspots = [], removedCharacters = [], customFlags = [] \<rparr>"

definition getRoomState :: "string \<Rightarrow> GameState \<Rightarrow> RoomState" where
  "getRoomState roomId gs =
     (case map_of (roomStates gs) roomId of Some rs \<Rightarrow> rs | None \<Rightarrow> emptyRoomState)"

definition setCurrentRoom :: "string \<Rightarrow> GameState \<Rightarrow> GameState" where
  "setCurrentRoom roomId gs =
     (let gs1 = gs\<lparr>currentRoom := roomId\<rparr>
      in if roomId \<in> set (visitedRooms gs1) then gs1
         else gs1\<lparr>visitedRooms := visitedRooms gs1 @ [roomId]\<rparr>)"

definition setPlayerPosition :: "point \<Rightarrow> GameState \<Rightarrow> GameState" where
  "setPlayerPosition position gs = gs\<lparr>playerPosition := position\<rparr>"

definition setPlayerFacing :: "facing \<Rightarrow> GameState \<Rightarrow> GameState" where
  "setPlayerFacing fc gs = gs\<lparr>playerFacing := fc\<rparr>"

definition addItem :: "string \<Rightarrow> GameState \<Rightarrow> GameState" where
  "addItem itemId gs =
     (if itemId \<in> set (inventory gs) then gs else gs\<lparr>inventory := inventory gs @ [itemId]\<rparr>)"

definition removeItem :: "string \<Rightarrow> GameState \<Rightarrow> GameState" where
  "removeItem itemId gs = gs\<lparr>inventory := filter (\<lambda>i. i \<noteq> itemId) (inventory gs)\<rparr>"

definition setFlag :: "string \<Rightarrow> flag_value \<Rightarrow> GameState \<Rightarrow> GameState" where
  "setFlag flag v gs = gs\<lparr>flags := AList.update flag v (flags gs)\<rparr>"

definition incrementFlag :: "string \<Rightarrow> real \<Rightarrow> GameState \<Rightarrow> GameState" where
  "incrementFlag flag amount gs =
     (case map_of (flags gs) flag of
        Some (FNum current) \<Rightarrow> gs\<lparr>flags := AList.update flag (FNum (current + amount)) (flags gs)\<rparr>
      | _ \<Rightarrow> gs\<lparr>flags := AList.update flag (FNum amount) (flags gs)\<rparr>)"

definition setReputation :: "real \<Rightarrow> GameState \<Rightarrow> GameState" where
  "setReputation v gs = gs\<lparr>reputation := max (- 100) (min 100 v)\<rparr>"

definition adjustReputation :: "real \<Rightarrow> GameState \<Rightarrow> GameState" where
  "adjustReputation amount gs = setReputation (reputation gs + amount) gs"

definition markPuzzleSolved :: "string \<Rightarrow> GameState \<Rightarrow> GameState" where
  "markPuzzleSolved puzzleId gs =
     (if puzzleId \<in> set (solvedPuzzles gs) then gs
      else gs\<lparr>solvedPuzzles := solvedPuzzles gs @ [puzzleId]\<rparr>)"

definition recordDialogueVisit :: "string \<Rightarrow> GameState \<Rightarrow> GameState" where
  "recordDialogueVisit nodeId gs =
     (if nodeId \<in> set (dialogueHistory gs) then gs
      else gs\<lparr>dialogueHistory := dialogueHistory gs @ [nodeId]\<rparr>)"

definition recordChoiceSelection :: "string \<Rightarrow> GameState \<Rightarrow> GameState" where
  "recordChoiceSelection choiceId gs =
     (if choiceId \<in> set (selectedChoices gs) then gs
      else gs\<lparr>selectedChoices := selectedChoices gs @ [choiceId]\<rparr>)"

definition setHotspotEnabled :: "string \<Rightarrow> string \<Rightarrow> bool \<Rightarrow> GameState \<Rightarrow> GameState" where
  "setHotspotEnabled roomId hotspotId enabled gs =
     (let rs = getRoomState roomId gs;
          rs' = (if enabled
                 then rs\<lparr>disabledHotspots := filter (\<lambda>i. i \<noteq> hotspotId) (disabledHotspots rs)\<rparr>
                 else if hotspotId \<in> set (disabledHotspots rs) then rs
                 else rs\<lparr>disabledHotspots := disabledHotspots rs @ [hotspotId]\<rparr>)
      in gs\<lparr>roomStates := AList.update roomId rs' (roomStates gs)\<rparr>)"

definition isHotspotEnabled :: "string \<Rightarrow> string \<Rightarrow> GameState \<Rightarrow> bool" where
  "isHotspotEnabled roomId hotspotId gs =
     (hotspotId \<notin> set (disabledHotspots (getRoomState roomId gs)))"

subsection \<open>Condition evaluation\<close>

text \<open>
  \<open>evaluateCondition\<close> compiles the condition with \<open>new Function\<close> and calls it.  The
  JavaScript engine is a parameter of the model: \<open>js condition gs\<close> is the outcome of
  building the function \<open>return condition;\<close> and calling it with \<open>hasItem\<close>, \<open>getFlag\<close>,
  \<open>hasVisitedRoom\<close>, \<open>hasSolvedPuzzle\<close>, \<open>reputation\<close> and \<open>inventory\<close> of the state
  \<open>gs\<close>: either an exception (a SyntaxError of the compilation included) or a value.
  A value is kept up to what \<open>!!\<close> can see of it.  Conditions are taken to be
  expressions without side effects on the store, and to return.
\<close>

datatype jsval = VUndefined | VNull | VBool bool | VNum real | VNaN | VStr string | VObject

fun ToBoolean :: "jsval \<Rightarrow> bool" where
  "ToBoolean VUndefined = False"
| "ToBoolean VNull = False"
| "ToBoolean (VBool b) = b"
| "ToBoolean (VNum n) = (n \<noteq> 0)"
| "ToBoolean VNaN = False"
| "ToBoolean (VStr s) = (s \<noteq> [])"
| "ToBoolean VObject = True"

datatype js_outcome = Throws string | Returns jsval

type_synonym js_engine = "string \<Rightarrow> GameState \<Rightarrow> js_outcome"

text \<open>The ASCII white space and line terminators removed by \<open>String.prototype.trim\<close>.\<close>

definition is_space :: "char \<Rightarrow> bool" where
  "is_space c = (c \<in> set [CHR 0x20, CHR 0x09, CHR 0x0A, CHR 0x0B, CHR 0x0C, CHR 0x0D])"

definition trim :: "string \<Rightarrow> string" where
  "trim s = rev (dropWhile is_space (rev (dropWhile is_space s)))"

text \<open>The body of the \<open>try\<close> block: the value returned, or the exception thrown.\<close>

definition evalFunc :: "js_engine \<Rightarrow> string \<Rightarrow> GameState \<Rightarrow> string + bool" where
  "evalFunc js condition gs =
     (case js condition gs of Throws e \<Rightarrow> Inl e | Returns v \<Rightarrow> Inr (ToBoolean v))"

text \<open>The result, and the lines written to \<open>console.error\<close>.\<close>

definition evaluateCondition :: "js_engine \<Rightarrow> string \<Rightarrow> GameState \<Rightarrow> bool \<times> string list" where
  "evaluateCondition js condition gs =
     (if condition = [] \<or> trim condition = [] then (True, [])
      else case evalFunc js condition gs of
             Inr b \<Rightarrow> (b, [])
           | Inl e \<Rightarrow> (False, [''Failed to evaluate condition: '' @ condition @ '' '' @ e]))"

subsection \<open>Save and load\<close>

text \<open>
  \<open>JSON.parse\<close> returns an untyped value, so what is read back from storage, and the
  \<open>gameState\<close> variable after a load, are modelled as JSON values: \<open>encode_state\<close> gives
  the value of a typed state.  \<open>None\<close> of type \<open>json option\<close> is \<open>undefined\<close>.
\<close>

datatype json = JNull | JBool bool | JNum real | JStr string | JArr "json list" | JObj "(string \<times> json) list"

datatype js_error = TypeError | SyntaxError | StorageError

fun json_truthy :: "json \<Rightarrow> bool" where
  "json_truthy JNull = False"
| "json_truthy (JBool b) = b"
| "json_truthy (JNum n) = (n \<noteq> 0)"
| "json_truthy (JStr s) = (s \<noteq> [])"
| "json_truthy (JArr xs) = True"
| "json_truthy (JObj kvs) = True"

definition truthy :: "json option \<Rightarrow> bool" where
  "truthy v = (case v of None \<Rightarrow> False | Some j \<Rightarrow> json_truthy j)"

text \<open>The property key of a slot number: its decimal numeral, as \<open>String(slot)\<close>.\<close>

fun string_of_nat :: "nat \<Rightarrow> string" where
  "string_of_nat n =
     (if n < 10 then [char_of (48 + n)]
      else string_of_nat (n div 10) @ [char_of (48 + n mod 10)])"

declare string_of_nat.simps [simp del]

definition string_of_int :: "int \<Rightarrow> string" where
  "string_of_int i = (if i < 0 then CHR ''-'' # string_of_nat (nat (- i)) else string_of_nat (nat i))"

text \<open>
  \<open>saves[slot]\<close>, \<open>saveData.gameState\<close> and \<open>saves[slot] = saveData\<close> on each kind of
  value.  Reading a property of \<open>null\<close> throws; members inherited from a prototype are
  left out (no slot key and no field read here names one).  The module is strict code,
  where a write to a property of a primitive throws.  A write past the end of an array
  leaves holes, which \<open>JSON.stringify\<close>, the only reader of the array, writes as
  \<open>null\<close>; a key that is no array index is not serialised.
\<close>

fun get_slot :: "json \<Rightarrow> int \<Rightarrow> js_error + json option" where
  "get_slot JNull n = Inl TypeError"
| "get_slot (JObj kvs) n = Inr (map_of kvs (string_of_int n))"
| "get_slot (JArr xs) n = Inr (if 0 \<le> n \<and> n < int (length xs) then Some (xs ! nat n) else None)"
| "get_slot (JStr s) n = Inr (if 0 \<le> n \<and> n < int (length s) then Some (JStr [s ! nat n]) else None)"
| "get_slot (JBool b) n = Inr None"
| "get_slot (JNum r) n = Inr None"

fun get_field :: "json \<Rightarrow> string \<Rightarrow> js_error + json option" where
  "get_field JNull f = Inl TypeError"
| "get_field (JObj kvs) f = Inr (map_of kvs f)"
| "get_field (JArr xs) f = Inr (if f = ''length'' then Some (JNum (real (length xs))) else None)"
| "get_field (JStr s) f = Inr (if f = ''length'' then Some (JNum (real (length s))) else None)"
| "get_field (JBool b) f = Inr None"
| "get_field (JNum r) f = Inr None"


text \<open>The object spread \<open>{ ...v }\<close>: the own enumerable properties of \<open>v\<close>.\<close>

definition indexed :: "json list \<Rightarrow> (string \<times> json) list" where
  "indexed xs = zip (map string_of_nat [0 ..< length xs]) xs"

fun spread :: "json option \<Rightarrow> json" where
  "spread None = JObj []"
| "spread (Some (JObj kvs)) = JObj kvs"
| "spread (Some (JArr xs)) = JObj (indexed xs)"
| "spread (Some (JStr s)) = JObj (indexed (map (\<lambda>c. JStr [c]) s))"
| "spread (Some JNull) = JObj []"
| "spread (Some (JBool b)) = JObj []"
| "spread (Some (JNum r)) = JObj []"

text \<open>
  The string kept under the storage key is known up to its parse: \<open>Encoded v\<close> is a
  text that parses to \<open>v\<close>, \<open>Garbage t\<close> a text \<open>t\<close> that does not parse (the empty
  string is \<open>Garbage []\<close>).  Reads and writes of the storage can fail.
\<close>

datatype stored_text = Garbage string | Encoded json

record localStorage =
  item :: "stored_text option"
  getItem_throws :: bool
  setItem_throws :: bool


definition getItem :: "localStorage \<Rightarrow> js_error + stored_text option" where
  "getItem ls = (if getItem_throws ls then Inl StorageError else Inr (item ls))"


fun JSON_parse :: "stored_text \<Rightarrow> js_error + json" where
  "JSON_parse (Garbage t) = Inl SyntaxError"
| "JSON_parse (Encoded v) = Inr v"


definition getSaveSlots :: "localStorage \<Rightarrow> json" where
  "getSaveSlots ls =
     (case getItem ls of
        Inl e \<Rightarrow> JObj []
      | Inr None \<Rightarrow> JObj []
      | Inr (Some d) \<Rightarrow>
          if d = Garbage [] then JObj []
          else (case JSON_parse d of Inl e \<Rightarrow> JObj [] | Inr v \<Rightarrow> v))"


definition loadGame :: "int \<Rightarrow> localStorage \<Rightarrow> json \<Rightarrow> bool \<times> json" where
  "loadGame slot ls gameState =
     (let saves = getSaveSlots ls
      in case get_slot saves slot of
           Inl e \<Rightarrow> (False, gameState)
         | Inr saveData \<Rightarrow>
             if \<not> truthy saveData then (False, gameState)
             else (case saveData of
                     None \<Rightarrow> (False, gameState)
                   | Some sd \<Rightarrow>
                       (case get_field sd ''gameState'' of
                          Inl e \<Rightarrow> (False, gameState)
                        | Inr g \<Rightarrow> (True, spread g))))"

text \<open>The entry of a slot that a load would accept: \<open>getSaveSlots()[slot]\<close> when truthy.\<close>

definition storedSave :: "localStorage \<Rightarrow> int \<Rightarrow> json option" where
  "storedSave ls slot =
     (case get_slot (getSaveSlots ls) slot of
        Inl e \<Rightarrow> None
      | Inr v \<Rightarrow> if truthy v then v else None)"




text \<open>The runtime object of a typed state, and the shape of a save record (types/game.ts).\<close>

definition encode_point :: "point \<Rightarrow> json" where
  "encode_point p = JObj [(''x'', JNum (px p)), (''y'', JNum (py p))]"

fun encode_flag :: "flag_value \<Rightarrow> json" where
  "encode_flag (FBool b) = JBool b"
| "encode_flag (FNum n) = JNum n"
| "encode_flag (FStr s) = JStr s"

definition encode_RoomState :: "RoomState \<Rightarrow> json" where
  "encode_RoomState rs = JObj
     [(''disabledHotspots'', JArr (map JStr (disabledHotspots rs))),
      (''removedCharacters'', JArr (map JStr (removedCharacters rs))),
      (''customFlags'', JObj (map (\<lambda>(k, v). (k, encode_flag v)) (customFlags rs)))]"

definition encode_state :: "GameState \<Rightarrow> json" where
  "encode_state gs = JObj
     [(''currentRoom'', JStr (currentRoom gs)),
      (''playerPosition'', encode_point (playerPosition gs)),
      (''playerFacing'', JStr (case playerFacing gs of FLeft \<Rightarrow> ''left'' | FRight \<Rightarrow> ''right'')),
      (''inventory'', JArr (map JStr (inventory gs))),
      (''flags'', JObj (map (\<lambda>(k, v). (k, encode_flag v)) (flags gs))),
      (''visitedRooms'', JArr (map JStr (visitedRooms gs))),
      (''solvedPuzzles'', JArr (map JStr (solvedPuzzles gs))),
      (''reputation'', JNum (reputation gs)),
      (''dialogueHistory'', JArr (map JStr (dialogueHistory gs))),
      (''selectedChoices'', JArr (map JStr (selectedChoices gs))),
      (''roomStates'', JObj (map (\<lambda>(k, v). (k, encode_RoomState v)) (roomStates gs)))]"

definition is_GameState :: "json \<Rightarrow> bool" where
  "is_GameState j =
     (case j of
        JObj kvs \<Rightarrow>
          list_all (\<lambda>f. map_of kvs f \<noteq> None)
            [''currentRoom'', ''playerPosition'', ''playerFacing'', ''inventory'', ''flags'',
             ''visitedRooms'', ''solvedPuzzles'', ''reputation'', ''dialogueHistory'',
             ''selectedChoices'', ''roomStates'']
      | _ \<Rightarrow> False)"

definition is_SaveData :: "json \<Rightarrow> bool" where
  "is_SaveData j =
     (case j of
        JObj kvs \<Rightarrow>
          (case map_of kvs ''version'' of Some (JStr v) \<Rightarrow> True | _ \<Rightarrow> False) \<and>
          (case map_of kvs ''timestamp'' of Some (JNum t) \<Rightarrow> True | _ \<Rightarrow> False) \<and>
          (case map_of kvs ''slotName'' of Some (JStr n) \<Rightarrow> True | _ \<Rightarrow> False) \<and>
          (case map_of kvs ''gameState'' of Some g \<Rightarrow> is_GameState g | None \<Rightarrow> False)
      | _ \<Rightarrow> False)"

subsection \<open>Reputation writes\<close>






section \<open>Script commands (types/game.ts)\<close>

text \<open>
  The tagged union \<open>ScriptCommand\<close>; optional fields are options.  \<open>Unknown t\<close> is a
  command object whose \<open>type\<close> is none of the known tags.
\<close>

datatype command =
    Say string string "string option"
  | Narrate string
  | Thought string
  | SetFlag string flag_value
  | IncFlag string real
  | GiveItem string
  | TakeItem string
  | EnableHotspot string bool
  | Teleport string point
  | GoToRoom string "point option"
  | PlaySound string
  | PlayMusic string "real option"
  | StopMusic "real option"
  | Wait real
  | Animate string string
  | Walk string point
  | Face string facing
  | StartDialogue string "string option"
  | If string "command list" "command list option"
  | FadeOut "real option"
  | FadeIn "real option"
  | Cutscene string
  | Reputation real
  | PuzzleSolved string
  | Unknown string


section \<open>Script interpreter (ScriptRunner.ts)\<close>

text \<open>
  An \<open>async\<close> call is a task: it runs until its first unresolved \<open>await\<close> and is then
  kept, with what it waits for and the frames still to run, until the matching signal
  resumes it.  Listeners of the emitted events belong to the presentation layer; the
  events are recorded in \<open>emitted\<close>.  A resolver variable holds the task it resumes.
\<close>

datatype script_event =
    EvSay string string "string option"
  | EvNarrate string
  | EvThought string
  | EvDialogue string "string option"
  | EvItemAdded string
  | EvItemRemoved string
  | EvRoomChange string "point option"
  | EvFadeOut real
  | EvFadeIn real
  | EvWalk string point bool
  | EvAnimate string "string option" "facing option"
  | EvSound string
  | EvMusic "string option" "real option" string
  | EvPuzzleSolved string

datatype pending = AwaitDismiss | AwaitDialogueComplete | AwaitWalk string | AwaitSleep real

datatype frame = FCmds "command list" | FGoToRoom string "point option" | FFinally

datatype exec_result = Done | Suspend pending "frame list" | Call "command list"

record runner =
  world :: GameState
  isRunningScript :: bool
  emitted :: "script_event list"
  console :: "string list"
  dialogueDismissResolve :: "nat option"
  dialogueCompleteResolve :: "nat option"
  walkCompleteResolvers :: "(string \<times> nat) list"
  tasks :: "(nat \<times> pending \<times> frame list) list"
  completed :: "nat list"
  next_task :: nat

definition emit :: "script_event \<Rightarrow> runner \<Rightarrow> runner" where
  "emit ev r = r\<lparr>emitted := emitted r @ [ev]\<rparr>"

definition waitForDialogueDismiss :: "nat \<Rightarrow> runner \<Rightarrow> runner" where
  "waitForDialogueDismiss tid r = r\<lparr>dialogueDismissResolve := Some tid\<rparr>"

definition waitForDialogueComplete :: "nat \<Rightarrow> runner \<Rightarrow> runner" where
  "waitForDialogueComplete tid r = r\<lparr>dialogueCompleteResolve := Some tid\<rparr>"

definition waitForWalkComplete :: "string \<Rightarrow> nat \<Rightarrow> runner \<Rightarrow> runner" where
  "waitForWalkComplete cid tid r =
     r\<lparr>walkCompleteResolvers := AList.update cid tid (walkCompleteResolvers r)\<rparr>"

definition duration_or_500 :: "real option \<Rightarrow> real" where
  "duration_or_500 d = (case d of None \<Rightarrow> 500 | Some x \<Rightarrow> if x = 0 then 500 else x)"

definition initial_runner :: runner where
  "initial_runner =
     \<lparr> world = createInitialState, isRunningScript = False, emitted = [], console = [],
       dialogueDismissResolve = None, dialogueCompleteResolve = None, walkCompleteResolvers = [],
       tasks = [], completed = [], next_task = 0 \<rparr>"

text \<open>
  One command.  \<open>Done\<close>: the command has returned; \<open>Suspend p k\<close>: it awaits \<open>p\<close> and
  has the frames \<open>k\<close> left to run afterwards; \<open>Call cs\<close>: it awaits \<open>runScript(cs)\<close> and
  then returns.
\<close>

fun executeCommand :: "js_engine \<Rightarrow> nat \<Rightarrow> command \<Rightarrow> runner \<Rightarrow> exec_result \<times> runner" where
  "executeCommand js tid (Say ch t v) r =
     (Suspend AwaitDismiss [], waitForDialogueDismiss tid (emit (EvSay ch t v) r))"
| "executeCommand js tid (Narrate t) r =
     (Suspend AwaitDismiss [], waitForDialogueDismiss tid (emit (EvNarrate t) r))"
| "executeCommand js tid (Thought t) r =
     (Suspend AwaitDismiss [], waitForDialogueDismiss tid (emit (EvThought t) r))"
| "executeCommand js tid (SetFlag f v) r = (Done, r\<lparr>world := setFlag f v (world r)\<rparr>)"
| "executeCommand js tid (IncFlag f a) r = (Done, r\<lparr>world := incrementFlag f a (world r)\<rparr>)"
| "executeCommand js tid (GiveItem i) r =
     (Suspend (AwaitSleep 500) [], emit (EvItemAdded i) (r\<lparr>world := addItem i (world r)\<rparr>))"
| "executeCommand js tid (TakeItem i) r =
     (Done, emit (EvItemRemoved i) (r\<lparr>world := removeItem i (world r)\<rparr>))"
| "executeCommand js tid (EnableHotspot h en) r =
     (Done, r\<lparr>world := setHotspotEnabled (currentRoom (world r)) h en (world r)\<rparr>)"
| "executeCommand js tid (Teleport cid pos) r = (Done, emit (EvWalk cid pos True) r)"
| "executeCommand js tid (GoToRoom room pos) r =
     (Suspend (AwaitSleep 500) [FGoToRoom room pos], emit (EvFadeOut 500) r)"
| "executeCommand js tid (PlaySound s) r = (Done, emit (EvSound s) r)"
| "executeCommand js tid (PlayMusic m fade) r = (Done, emit (EvMusic (Some m) fade ''play'') r)"
| "executeCommand js tid (StopMusic fade) r = (Done, emit (EvMusic None fade ''stop'') r)"
| "executeCommand js tid (Wait secs) r = (Suspend (AwaitSleep (secs * 1000)) [], r)"
| "executeCommand js tid (Animate cid a) r = (Done, emit (EvAnimate cid (Some a) None) r)"
| "executeCommand js tid (Walk cid pos) r =
     (Suspend (AwaitWalk cid) [], waitForWalkComplete cid tid (emit (EvWalk cid pos False) r))"
| "executeCommand js tid (Face cid d) r = (Done, emit (EvAnimate cid None (Some d)) r)"
| "executeCommand js tid (StartDialogue cid n) r =
     (Suspend AwaitDialogueComplete [], waitForDialogueComplete tid (emit (EvDialogue cid n) r))"
| "executeCommand js tid (If cond th el) r =
     (let (b, msgs) = evaluateCondition js cond (world r);
          r' = r\<lparr>console := console r @ msgs\<rparr>
      in if b then (Call th, r')
         else (case el of Some e \<Rightarrow> (Call e, r') | None \<Rightarrow> (Done, r')))"
| "executeCommand js tid (FadeOut d) r =
     (Suspend (AwaitSleep (duration_or_500 d)) [], emit (EvFadeOut (duration_or_500 d)) r)"
| "executeCommand js tid (FadeIn d) r =
     (Suspend (AwaitSleep (duration_or_500 d)) [], emit (EvFadeIn (duration_or_500 d)) r)"
| "executeCommand js tid (Cutscene i) r = (Done, emit (EvNarrate (''[Cutscene: '' @ i @ '']'')) r)"
| "executeCommand js tid (Reputation a) r =
     (let r' = r\<lparr>world := adjustReputation a (world r)\<rparr>
      in (Done, if a > 0 then emit (EvSound ''sfx_reputation_up'') r'
                else if a < 0 then emit (EvSound ''sfx_reputation_down'') r'
                else r'))"
| "executeCommand js tid (PuzzleSolved p) r =
     (Suspend (AwaitSleep 1000) [],
      emit (EvSound ''sting_puzzle_solved'')
        (emit (EvPuzzleSolved p) (r\<lparr>world := markPuzzleSolved p (world r)\<rparr>)))"
| "executeCommand js tid (Unknown t) r =
     (Done, r\<lparr>console := console r @ [''Unknown script command: '' @ t]\<rparr>)"

text \<open>
  The frames of a task run until the task suspends (\<open>Some\<close>, with what is awaited and
  the frames left) or returns (\<open>None\<close>).  \<open>FCmds\<close> is the loop of \<open>runScript\<close> over the
  commands left, \<open>FGoToRoom\<close> the second half of a \<open>goToRoom\<close> command, \<open>FFinally\<close> the
  \<open>finally\<close> block of \<open>runScriptWithContext\<close>.
\<close>

fun frame_size :: "frame \<Rightarrow> nat" where
  "frame_size (FCmds cs) = Suc (2 * size_list size cs)"
| "frame_size (FGoToRoom room pos) = 1"
| "frame_size FFinally = 1"

definition frames_size :: "frame list \<Rightarrow> nat" where
  "frames_size k = sum_list (map frame_size k)"

function exec :: "js_engine \<Rightarrow> nat \<Rightarrow> frame list \<Rightarrow> runner \<Rightarrow> (pending \<times> frame list) option \<times> runner" where
  "exec js tid [] r = (None, r)"
| "exec js tid (FCmds [] # k) r = exec js tid k r"
| "exec js tid (FCmds (c # cs) # k) r =
     (case executeCommand js tid c r of
        (Done, r') \<Rightarrow> exec js tid (FCmds cs # k) r'
      | (Suspend p k', r') \<Rightarrow> (Some (p, k' @ FCmds cs # k), r')
      | (Call cmds, r') \<Rightarrow> exec js tid (FCmds cmds # FCmds cs # k) r')"
| "exec js tid (FGoToRoom room pos # k) r =
     (Some (AwaitSleep 500, k),
      emit (EvFadeIn 500) (emit (EvRoomChange room pos) (r\<lparr>world := setCurrentRoom room (world r)\<rparr>)))"
| "exec js tid (FFinally # k) r = exec js tid k (r\<lparr>isRunningScript := False\<rparr>)"
  by pat_completeness auto

termination
  apply (relation "measure (\<lambda>(js, tid, k, r). frames_size k)")
      apply (simp_all add: frames_size_def)
  subgoal for js tid c r x y cmds
    by (cases c) (auto simp: Let_def split: prod.splits if_splits option.splits)
  done

text \<open>Starting a task, and the signals that resume one.\<close>

definition finish :: "nat \<Rightarrow> (pending \<times> frame list) option \<times> runner \<Rightarrow> runner" where
  "finish tid res =
     (case res of
        (None, r) \<Rightarrow> r\<lparr>completed := completed r @ [tid]\<rparr>
      | (Some (p, k), r) \<Rightarrow> r\<lparr>tasks := tasks r @ [(tid, p, k)]\<rparr>)"

definition start_task :: "js_engine \<Rightarrow> frame list \<Rightarrow> runner \<Rightarrow> runner" where
  "start_task js k r =
     (let tid = next_task r
      in finish tid (exec js tid k (r\<lparr>next_task := Suc tid\<rparr>)))"


definition runScriptWithContext :: "js_engine \<Rightarrow> command list \<Rightarrow> runner \<Rightarrow> runner" where
  "runScriptWithContext js commands r =
     start_task js [FCmds commands, FFinally] (r\<lparr>isRunningScript := True\<rparr>)"

definition getIsRunningScript :: "runner \<Rightarrow> bool" where
  "getIsRunningScript r = isRunningScript r"

definition resume :: "js_engine \<Rightarrow> nat \<Rightarrow> runner \<Rightarrow> runner" where
  "resume js tid r =
     (case map_of (tasks r) tid of
        None \<Rightarrow> r
      | Some (p, k) \<Rightarrow>
          finish tid (exec js tid k (r\<lparr>tasks := filter (\<lambda>t. fst t \<noteq> tid) (tasks r)\<rparr>)))"

definition signalDialogueDismissed :: "js_engine \<Rightarrow> runner \<Rightarrow> runner" where
  "signalDialogueDismissed js r =
     (case dialogueDismissResolve r of
        None \<Rightarrow> r
      | Some tid \<Rightarrow> resume js tid (r\<lparr>dialogueDismissResolve := None\<rparr>))"

definition signalDialogueComplete :: "js_engine \<Rightarrow> runner \<Rightarrow> runner" where
  "signalDialogueComplete js r =
     (case dialogueCompleteResolve r of
        None \<Rightarrow> r
      | Some tid \<Rightarrow> resume js tid (r\<lparr>dialogueCompleteResolve := None\<rparr>))"

definition signalWalkComplete :: "js_engine \<Rightarrow> string \<Rightarrow> runner \<Rightarrow> runner" where
  "signalWalkComplete js cid r =
     (case map_of (walkCompleteResolvers r) cid of
        None \<Rightarrow> r
      | Some tid \<Rightarrow>
          resume js tid (r\<lparr>walkCompleteResolvers := AList.delete cid (walkCompleteResolvers r)\<rparr>))"

definition timeout_fires :: "js_engine \<Rightarrow> nat \<Rightarrow> runner \<Rightarrow> runner" where
  "timeout_fires js tid r =
     (case map_of (tasks r) tid of
        Some (AwaitSleep ms, k) \<Rightarrow> resume js tid r
      | _ \<Rightarrow> r)"

datatype signal = SigDismissed | SigDialogueComplete | SigWalkComplete string | SigTimeout nat

fun deliver :: "js_engine \<Rightarrow> signal \<Rightarrow> runner \<Rightarrow> runner" where
  "deliver js SigDismissed r = signalDialogueDismissed js r"
| "deliver js SigDialogueComplete r = signalDialogueComplete js r"
| "deliver js (SigWalkComplete cid) r = signalWalkComplete js cid r"
| "deliver js (SigTimeout tid) r = timeout_fires js tid r"

definition deliver_all :: "js_engine \<Rightarrow> signal list \<Rightarrow> runner \<Rightarrow> runner" where
  "deliver_all js sigs r = foldl (\<lambda>r' s. deliver js s r') r sigs"

text \<open>
  The specification's reading of a command list: the effects on the store of its
  commands, one after the other in list order, a conditional contributing the branch
  chosen when it is reached.
\<close>

fun store_effect :: "command \<Rightarrow> GameState \<Rightarrow> GameState" where
  "store_effect (SetFlag f v) g = setFlag f v g"
| "store_effect (IncFlag f a) g = incrementFlag f a g"
| "store_effect (GiveItem i) g = addItem i g"
| "store_effect (TakeItem i) g = removeItem i g"
| "store_effect (EnableHotspot h en) g = setHotspotEnabled (currentRoom g) h en g"
| "store_effect (GoToRoom room pos) g = setCurrentRoom room g"
| "store_effect (Reputation a) g = adjustReputation a g"
| "store_effect (PuzzleSolved p) g = markPuzzleSolved p g"
| "store_effect c g = g"

fun in_order :: "js_engine \<Rightarrow> command list \<Rightarrow> GameState \<Rightarrow> GameState" where
  "in_order js [] g = g"
| "in_order js (If cond th el # cs) g =
     in_order js cs
       (if fst (evaluateCondition js cond g) then in_order js th g
        else (case el of Some e \<Rightarrow> in_order js e g | None \<Rightarrow> g))"
| "in_order js (c # cs) g = in_order js cs (store_effect c g)"


fun frame_effect :: "js_engine \<Rightarrow> frame \<Rightarrow> GameState \<Rightarrow> GameState" where
  "frame_effect js (FCmds cs) g = in_order js cs g"
| "frame_effect js (FGoToRoom room pos) g = setCurrentRoom room g"
| "frame_effect js FFinally g = g"

definition frames_effect :: "js_engine \<Rightarrow> frame list \<Rightarrow> GameState \<Rightarrow> GameState" where
  "frames_effect js k g = foldl (\<lambda>g' f. frame_effect js f g') g k"



definition idle :: "runner \<Rightarrow> bool" where
  "idle r = (tasks r = [] \<and> next_task r \<notin> set (completed r))"


text \<open>
  The frames of a run started by \<open>runScriptWithContext\<close> end with its \<open>finally\<close> block
  and hold no other; \<open>solo_flagged\<close> says that the one task \<open>tid\<close> is either finished with
  the flag cleared or suspended with the flag set.
\<close>

definition guarded :: "frame list \<Rightarrow> bool" where
  "guarded k = (k \<noteq> [] \<and> last k = FFinally \<and> FFinally \<notin> set (butlast k))"

definition solo_flagged :: "nat \<Rightarrow> runner \<Rightarrow> bool" where
  "solo_flagged tid r =
     ((tasks r = [] \<and> tid \<in> set (completed r) \<and> \<not> isRunningScript r) \<or>
      (\<exists>p k. tasks r = [(tid, p, k)] \<and> tid \<notin> set (completed r) \<and> isRunningScript r \<and> guarded k))"


section \<open>Dialogue data (types/game.ts, types/dialogue.ts)\<close>

text \<open>
  A node definition of a dialogue file has the fields of an engine node (and
  presentation fields that no function below reads), so one record serves both.  A tree
  definition is an engine tree with metadata.  The \<open>nodes\<close> object is an association
  list in the order of \<open>Object.entries\<close>; node ids are taken not to be names of members
  of \<open>Object.prototype\<close>.
\<close>

record DialogueChoice =
  choiceId :: string
  choiceText :: string
  targetNode :: string
  choiceCondition :: "string option"
  onSelect :: "command list option"
  once :: "bool option"

record DialogueNode =
  nodeId :: string
  speaker :: "string option"
  nodeText :: string
  voiceLine :: "string option"
  portrait :: "string option"
  choices :: "DialogueChoice list option"
  nextNode :: "string option"
  onEnter :: "command list option"
  onExit :: "command list option"
  endConversation :: "bool option"

record DialogueTree =
  treeId :: string
  characterId :: string
  startNode :: string
  nodes :: "(string \<times> DialogueNode) list"

record DialogueMetadata =
  title :: "string option"
  description :: "string option"
  priority :: "real option"
  availability :: "string option"
  oneTime :: "bool option"

record DialogueTreeDefinition = DialogueTree +
  metadata :: "DialogueMetadata option"

record DialogueFile =
  version :: string
  fileCharacterId :: string
  characterName :: string
  defaultPortrait :: "string option"
  dialogues :: "DialogueTreeDefinition list"


section \<open>Dialogue loader (DialogueLoader.ts)\<close>

subsection \<open>Validation\<close>

text \<open>
  \<open>validateDialogueFile\<close> pushes its messages in one pass over the trees; the messages
  of one tree are \<open>dialogue_errors\<close>, those of one node the three lists below.  A string
  is truthy when it is present and not empty.
\<close>

definition string_truthy :: "string option \<Rightarrow> bool" where
  "string_truthy s = (case s of None \<Rightarrow> False | Some t \<Rightarrow> t \<noteq> [])"















section \<open>Dialogue manager (DialogueManager.ts)\<close>

text \<open>
  The manager holds the registered trees in registration order (a \<open>Map\<close>: setting an
  existing id keeps its place) and the current tree and node.  Its \<open>async\<close> functions
  run as steps: \<open>dstep\<close> performs the code up to the next \<open>await\<close> of a script or the
  next call that ends the function, and says what comes next.  A step that awaits a
  script which does not finish at once is parked in \<open>awaiting\<close> under the script's task.
  Since \<open>enterNode\<close> and \<open>handleAutoAdvance\<close> call each other, and may do so for ever,
  the steps are counted down from a fuel; \<open>None\<close> is a run that has not ended.  The one
  rejected promise (\<open>advanceDialogue\<close> reading a node that its exit script has cleared)
  is recorded as a line of the console.
\<close>

datatype dialogue_event =
    NodeEnter DialogueNode "DialogueTree option"
  | NodeExit "DialogueNode option"
  | ChoicesReady "DialogueChoice list" DialogueNode
  | DialogueEnd "DialogueTree option"

datatype dwork =
    EnterNode string
  | AfterOnEnter DialogueNode
  | HandleAutoAdvance DialogueNode
  | SelectAfterOnExit DialogueChoice
  | SelectAfterOnSelect DialogueChoice
  | AdvanceAfterOnExit

record manager =
  scripts :: runner
  dialogueTrees :: "(string \<times> DialogueTree) list"
  currentTree :: "DialogueTree option"
  currentNode :: "DialogueNode option"
  isDialogueActive :: bool
  dialogueEvents :: "dialogue_event list"
  awaiting :: "(nat \<times> dwork) list"

definition initial_manager :: manager where
  "initial_manager =
     \<lparr> scripts = initial_runner, dialogueTrees = [], currentTree = None, currentNode = None,
       isDialogueActive = False, dialogueEvents = [], awaiting = [] \<rparr>"

definition demit :: "dialogue_event \<Rightarrow> manager \<Rightarrow> manager" where
  "demit ev s = s\<lparr>dialogueEvents := dialogueEvents s @ [ev]\<rparr>"

definition console_write :: "string \<Rightarrow> manager \<Rightarrow> manager" where
  "console_write msg s = s\<lparr>scripts := (scripts s)\<lparr>console := console (scripts s) @ [msg]\<rparr>\<rparr>"

definition registerDialogueTree :: "DialogueTree \<Rightarrow> manager \<Rightarrow> manager" where
  "registerDialogueTree tree s =
     s\<lparr>dialogueTrees := AList.update (treeId tree) tree (dialogueTrees s)\<rparr>"

definition getDialogueTree :: "string \<Rightarrow> manager \<Rightarrow> DialogueTree option" where
  "getDialogueTree tid s = map_of (dialogueTrees s) tid"

definition endDialogue :: "manager \<Rightarrow> manager" where
  "endDialogue s =
     demit (DialogueEnd (currentTree s))
       (s\<lparr>currentTree := None, currentNode := None, isDialogueActive := False\<rparr>)"

text \<open>
  \<open>filterChoices\<close>.  The key of a once-only choice is written with \<open>currentTree?.id\<close>,
  which reads \<open>undefined\<close> when no tree is current.
\<close>

definition tree_id_or_undefined :: "manager \<Rightarrow> string" where
  "tree_id_or_undefined s = (case currentTree s of Some t \<Rightarrow> treeId t | None \<Rightarrow> ''undefined'')"

definition choice_available :: "js_engine \<Rightarrow> manager \<Rightarrow> DialogueChoice \<Rightarrow> bool \<times> string list" where
  "choice_available js s choice =
     (let (ok, msgs) = (case choiceCondition choice of
                          None \<Rightarrow> (True, [])
                        | Some c \<Rightarrow> if c = [] then (True, [])
                                    else evaluateCondition js c (world (scripts s)))
      in if \<not> ok then (False, msgs)
         else if once choice = Some True \<and>
                 hasSelectedChoice (tree_id_or_undefined s @ '':'' @ choiceId choice) (world (scripts s))
         then (False, msgs)
         else (True, msgs))"

definition filterChoices :: "js_engine \<Rightarrow> DialogueChoice list \<Rightarrow> manager \<Rightarrow> DialogueChoice list \<times> manager" where
  "filterChoices js cs s =
     (filter (\<lambda>c. fst (choice_available js s c)) cs,
      s\<lparr>scripts := (scripts s)\<lparr>console := console (scripts s) @
            concat (map (\<lambda>c. snd (choice_available js s c)) cs)\<rparr>\<rparr>)"

text \<open>
  \<open>await runScriptWithContext(cmds)\<close>, to go on with \<open>w\<close>: at once when the script has
  completed without waiting, later otherwise.
\<close>

definition await_script :: "js_engine \<Rightarrow> command list \<Rightarrow> dwork \<Rightarrow> manager \<Rightarrow> dwork option \<times> manager" where
  "await_script js cmds w s =
     (let tid = next_task (scripts s);
          r = runScriptWithContext js cmds (scripts s)
      in if tid \<in> set (completed r) then (Some w, s\<lparr>scripts := r\<rparr>)
         else (None, s\<lparr>scripts := r, awaiting := awaiting s @ [(tid, w)]\<rparr>))"

fun dstep :: "js_engine \<Rightarrow> dwork \<Rightarrow> manager \<Rightarrow> dwork option \<times> manager" where
  "dstep js (EnterNode nid) s =
     (case currentTree s of
        None \<Rightarrow> (None, s)
      | Some tree \<Rightarrow>
          (case map_of (nodes tree) nid of
             None \<Rightarrow> (None, endDialogue (console_write (''Dialogue node not found: '' @ nid) s))
           | Some node \<Rightarrow>
               (let s1 = s\<lparr>currentNode := Some node\<rparr>;
                    s2 = s1\<lparr>scripts := (scripts s1)\<lparr>world :=
                            recordDialogueVisit (treeId tree @ '':'' @ nid) (world (scripts s1))\<rparr>\<rparr>
                in case onEnter node of
                     Some cmds \<Rightarrow> await_script js cmds (AfterOnEnter node) s2
                   | None \<Rightarrow> (Some (AfterOnEnter node), s2))))"
| "dstep js (AfterOnEnter node) s =
     (let s1 = demit (NodeEnter node (currentTree s)) s
      in case choices node of
           Some (c # cs) \<Rightarrow>
             (let (available, s2) = filterChoices js (c # cs) s1
              in if available \<noteq> [] then (None, demit (ChoicesReady available node) s2)
                 else (Some (HandleAutoAdvance node), s2))
         | _ \<Rightarrow> (None, s1))"
| "dstep js (HandleAutoAdvance node) s =
     (case (if string_truthy (nextNode node) then nextNode node else None) of
        Some n \<Rightarrow> if n = ''end'' then (None, endDialogue s) else (Some (EnterNode n), s)
      | None \<Rightarrow>
          if endConversation node = Some True then (None, endDialogue s)
          else if choices node = None \<or> choices node = Some [] then (None, endDialogue s)
          else (None, s))"
| "dstep js (SelectAfterOnExit choice) s =
     (let s1 = demit (NodeExit (currentNode s)) s
      in case onSelect choice of
           Some cmds \<Rightarrow> await_script js cmds (SelectAfterOnSelect choice) s1
         | None \<Rightarrow> (Some (SelectAfterOnSelect choice), s1))"
| "dstep js (SelectAfterOnSelect choice) s =
     (if targetNode choice = ''end'' then (None, endDialogue s)
      else (Some (EnterNode (targetNode choice)), s))"
| "dstep js AdvanceAfterOnExit s =
     (let s1 = demit (NodeExit (currentNode s)) s
      in case currentNode s of
           None \<Rightarrow> (None, console_write ''TypeError: Cannot read properties of null'' s1)
         | Some node \<Rightarrow> (Some (HandleAutoAdvance node), s1))"

fun drun :: "nat \<Rightarrow> js_engine \<Rightarrow> dwork \<Rightarrow> manager \<Rightarrow> manager option" where
  "drun 0 js w s = None"
| "drun (Suc fuel) js w s =
     (case dstep js w s of
        (None, s') \<Rightarrow> Some s'
      | (Some w', s') \<Rightarrow> drun fuel js w' s')"

text \<open>The exported functions, and the signals of the interpreter seen from the manager.\<close>

definition startDialogue :: "nat \<Rightarrow> js_engine \<Rightarrow> string \<Rightarrow> string option \<Rightarrow> manager \<Rightarrow> manager option" where
  "startDialogue fuel js cid startNodeId s =
     (case find (\<lambda>t. characterId t = cid) (map snd (dialogueTrees s)) of
        None \<Rightarrow> Some (console_write (''No dialogue tree found for character: '' @ cid) s)
      | Some tree \<Rightarrow>
          drun fuel js
            (EnterNode (case startNodeId of
                          None \<Rightarrow> startNode tree
                        | Some n \<Rightarrow> if n = [] then startNode tree else n))
            (s\<lparr>currentTree := Some tree, isDialogueActive := True\<rparr>))"

definition selectChoice :: "nat \<Rightarrow> js_engine \<Rightarrow> string \<Rightarrow> manager \<Rightarrow> manager option" where
  "selectChoice fuel js cid s =
     (case (currentTree s, currentNode s) of
        (Some tree, Some node) \<Rightarrow>
          (case choices node of
             None \<Rightarrow> Some s
           | Some cs \<Rightarrow>
               (case find (\<lambda>c. choiceId c = cid) cs of
                  None \<Rightarrow> Some (console_write (''Choice not found: '' @ cid) s)
                | Some choice \<Rightarrow>
                    (let s1 = s\<lparr>scripts := (scripts s)\<lparr>world :=
                                 recordChoiceSelection (treeId tree @ '':'' @ choiceId choice)
                                   (world (scripts s))\<rparr>\<rparr>
                     in case onExit node of
                          Some cmds \<Rightarrow>
                            (case await_script js cmds (SelectAfterOnExit choice) s1 of
                               (None, s2) \<Rightarrow> Some s2
                             | (Some w, s2) \<Rightarrow> drun fuel js w s2)
                        | None \<Rightarrow> drun fuel js (SelectAfterOnExit choice) s1)))
      | _ \<Rightarrow> Some s)"

definition advanceDialogue :: "nat \<Rightarrow> js_engine \<Rightarrow> manager \<Rightarrow> manager option" where
  "advanceDialogue fuel js s =
     (case (currentTree s, currentNode s) of
        (Some tree, Some node) \<Rightarrow>
          (case onExit node of
             Some cmds \<Rightarrow>
               (case await_script js cmds AdvanceAfterOnExit s of
                  (None, s1) \<Rightarrow> Some s1
                | (Some w, s1) \<Rightarrow> drun fuel js w s1)
           | None \<Rightarrow> drun fuel js AdvanceAfterOnExit s)
      | _ \<Rightarrow> Some s)"

fun continue_completed :: "nat \<Rightarrow> js_engine \<Rightarrow> (nat \<times> dwork) list \<Rightarrow> manager \<Rightarrow> manager option" where
  "continue_completed fuel js [] s = Some s"
| "continue_completed fuel js ((tid, w) # ws) s =
     (if tid \<in> set (completed (scripts s))
      then (case drun fuel js w (s\<lparr>awaiting := filter (\<lambda>a. fst a \<noteq> tid) (awaiting s)\<rparr>) of
              None \<Rightarrow> None
            | Some s' \<Rightarrow> continue_completed fuel js ws s')
      else continue_completed fuel js ws s)"

definition signal_manager :: "nat \<Rightarrow> js_engine \<Rightarrow> signal \<Rightarrow> manager \<Rightarrow> manager option" where
  "signal_manager fuel js sg s =
     (let s1 = s\<lparr>scripts := deliver js sg (scripts s)\<rparr>
      in continue_completed fuel js (awaiting s1) s1)"


section \<open>Dialogue loader: loading and selection (DialogueLoader.ts)\<close>

text \<open>
  \<open>convertToEngineFormat\<close> copies a tree definition without its metadata; the engine
  tree has no such field.  \<open>findDialogueForCharacter\<close> sorts the trees of a file by
  descending priority (a stable sort) and returns the first whose condition is absent,
  empty or true, and the first of the sorted list when there is none; it also returns
  what the evaluations wrote to the console.
\<close>

record loader =
  dialogueFiles :: "(string \<times> DialogueFile) list"
  definitionTrees :: "(string \<times> DialogueTreeDefinition) list"

definition keep_truthy :: "string option \<Rightarrow> string option" where
  "keep_truthy s = (if string_truthy s then s else None)"

definition convertNode :: "DialogueNode \<Rightarrow> DialogueNode" where
  "convertNode d =
     \<lparr> nodeId = nodeId d,
       speaker = keep_truthy (speaker d),
       nodeText = nodeText d,
       voiceLine = keep_truthy (voiceLine d),
       portrait = keep_truthy (portrait d),
       choices = (case choices d of Some (c # cs) \<Rightarrow> Some (c # cs) | _ \<Rightarrow> None),
       nextNode = keep_truthy (nextNode d),
       onEnter = onEnter d,
       onExit = onExit d,
       endConversation = (if endConversation d = Some True then Some True else None) \<rparr>"

definition convertToEngineFormat :: "DialogueTreeDefinition \<Rightarrow> DialogueTree" where
  "convertToEngineFormat d =
     \<lparr> treeId = treeId d, characterId = characterId d, startNode = startNode d,
       nodes = map (\<lambda>(nid, nodeDef). (nid, convertNode nodeDef)) (nodes d) \<rparr>"

definition loadDialogueFile :: "DialogueFile \<Rightarrow> loader \<times> manager \<Rightarrow> loader \<times> manager" where
  "loadDialogueFile file st =
     foldl (\<lambda>(ld, s) dialogue.
              (ld\<lparr>definitionTrees := AList.update (treeId dialogue) dialogue (definitionTrees ld)\<rparr>,
               registerDialogueTree (convertToEngineFormat dialogue) s))
       ((fst st)\<lparr>dialogueFiles := AList.update (fileCharacterId file) file (dialogueFiles (fst st))\<rparr>,
        snd st)
       (dialogues file)"

definition priority_of :: "DialogueTreeDefinition \<Rightarrow> real" where
  "priority_of d =
     (case metadata d of
        None \<Rightarrow> 0
      | Some m \<Rightarrow> (case priority m of None \<Rightarrow> 0 | Some p \<Rightarrow> p))"

definition availability_of :: "DialogueTreeDefinition \<Rightarrow> string option" where
  "availability_of d = (case metadata d of None \<Rightarrow> None | Some m \<Rightarrow> availability m)"

fun first_available :: "js_engine \<Rightarrow> GameState \<Rightarrow> DialogueTreeDefinition list \<Rightarrow>
    DialogueTreeDefinition option \<times> string list" where
  "first_available js gs [] = (None, [])"
| "first_available js gs (d # ds) =
     (case availability_of d of
        None \<Rightarrow> (Some d, [])
      | Some c \<Rightarrow>
          if c = [] then (Some d, [])
          else (let (ok, msgs) = evaluateCondition js c gs
                in if ok then (Some d, msgs)
                   else (let (res, more) = first_available js gs ds in (res, msgs @ more))))"

definition findDialogueForCharacter :: "js_engine \<Rightarrow> string \<Rightarrow> loader \<Rightarrow> GameState \<Rightarrow>
    DialogueTreeDefinition option \<times> string list" where
  "findDialogueForCharacter js cid ld gs =
     (case map_of (dialogueFiles ld) cid of
        None \<Rightarrow> (None, [''No dialogue file found for character: '' @ cid])
      | Some file \<Rightarrow>
          (let sortedDialogues = sort_key (\<lambda>d. - priority_of d) (dialogues file)
           in case first_available js gs sortedDialogues of
                (Some d, msgs) \<Rightarrow> (Some d, msgs)
              | (None, msgs) \<Rightarrow>
                  (case sortedDialogues of [] \<Rightarrow> (None, msgs) | d # ds \<Rightarrow> (Some d, msgs))))"

definition empty_loader :: loader where
  "empty_loader = \<lparr> dialogueFiles = [], definitionTrees = [] \<rparr>"

text \<open>Registering a list of trees in order; what a call has made the current tree.\<close>

definition register_all :: "DialogueTree list \<Rightarrow> manager \<Rightarrow> manager" where
  "register_all ts s = foldl (\<lambda>s' t. registerDialogueTree t s') s ts"

definition entered_tree :: "manager option \<Rightarrow> string option" where
  "entered_tree res = (case res of None \<Rightarrow> None | Some s \<Rightarrow> map_option treeId (currentTree s))"

definition chosen_id :: "DialogueTreeDefinition option \<times> string list \<Rightarrow> string option" where
  "chosen_id res = map_option treeId (fst res)"

definition running_flag :: "manager option \<Rightarrow> bool option" where
  "running_flag res = map_option (\<lambda>s. getIsRunningScript (scripts s)) res"

definition suspended_tasks :: "manager option \<Rightarrow> (nat \<times> pending) list" where
  "suspended_tasks res =
     (case res of None \<Rightarrow> [] | Some s \<Rightarrow> map (\<lambda>(tid, p, k). (tid, p)) (tasks (scripts s)))"


section \<open>Pathfinding (pathfinding.ts)\<close>

text \<open>
  Coordinates are reals.  The ray-casting loop visits the pairs of a vertex and its
  predecessor, the last vertex being the predecessor of the first; the division is
  evaluated only when the two ordinates differ.
\<close>

record polygon =
  points :: "point list"

definition edge_pairs :: "point list \<Rightarrow> (point \<times> point) list" where
  "edge_pairs ps = (case ps of [] \<Rightarrow> [] | p # qs \<Rightarrow> zip ps (last ps # butlast ps))"

definition crosses :: "point \<Rightarrow> point \<times> point \<Rightarrow> bool" where
  "crosses p e =
     (case e of (vi, vj) \<Rightarrow>
        ((py vi > py p) \<noteq> (py vj > py p)) \<and>
        px p < (px vj - px vi) * (py p - py vi) / (py vj - py vi) + px vi)"

definition isPointInPolygon :: "point \<Rightarrow> polygon \<Rightarrow> bool" where
  "isPointInPolygon p poly =
     foldl (\<lambda>inside e. if crosses p e then \<not> inside else inside) False (edge_pairs (points poly))"

definition distance :: "point \<Rightarrow> point \<Rightarrow> real" where
  "distance a b =
     (let dx = px b - px a; dy = py b - py a in sqrt (dx * dx + dy * dy))"

definition closestPointOnLineSegment :: "point \<Rightarrow> point \<Rightarrow> point \<Rightarrow> point" where
  "closestPointOnLineSegment p a b =
     (let dx = px b - px a; dy = py b - py a; lenSq = dx * dx + dy * dy
      in if lenSq = 0 then a
         else (let t = max 0 (min 1 (((px p - px a) * dx + (py p - py a) * dy) / lenSq))
               in Point (px a + t * dx) (py a + t * dy)))"

definition getPolygonCenter :: "polygon \<Rightarrow> point" where
  "getPolygonCenter poly =
     Point (sum_list (map px (points poly)) / real (length (points poly)))
           (sum_list (map py (points poly)) / real (length (points poly)))"

definition nonempty_polygon :: "polygon \<Rightarrow> bool" where
  "nonempty_polygon poly = (points poly \<noteq> [])"

text \<open>
  \<open>getClosestPointInPolygon\<close>.  The running minimum starts at \<open>Infinity\<close> (\<open>None\<close>) and the
  closest point at \<open>points[0]\<close>, which is \<open>undefined\<close> for a polygon without vertices:
  reading its coordinate then throws.
\<close>

definition closer :: "point \<Rightarrow> point option \<times> real option \<Rightarrow> point \<times> point \<Rightarrow> point option \<times> real option" where
  "closer p acc e =
     (case e of (p1, p2) \<Rightarrow>
        (let closest = closestPointOnLineSegment p p1 p2;
             dist = distance p closest
         in if (case snd acc of None \<Rightarrow> True | Some minDist \<Rightarrow> dist < minDist)
            then (Some closest, Some dist) else acc))"

definition getClosestPointInPolygon :: "point \<Rightarrow> polygon \<Rightarrow> js_error + point" where
  "getClosestPointInPolygon p poly =
     (if isPointInPolygon p poly then Inr p
      else (let ps = points poly;
                acc = foldl (closer p) (case ps of [] \<Rightarrow> None | q # qs \<Rightarrow> Some q, None)
                        (zip ps (rotate1 ps));
                center = getPolygonCenter poly
            in case fst acc of
                 None \<Rightarrow> Inl TypeError
               | Some closestPoint \<Rightarrow>
                   (let dx = px center - px closestPoint;
                        dy = py center - py closestPoint;
                        len = sqrt (dx * dx + dy * dy)
                    in if len > 0
                       then Inr (Point (px closestPoint + dx / len * 2) (py closestPoint + dy / len * 2))
                       else Inr closestPoint)))"

definition canWalkDirectly :: "point \<Rightarrow> point \<Rightarrow> polygon \<Rightarrow> bool" where
  "canWalkDirectly start endp poly =
     (if \<not> isPointInPolygon start poly \<or> \<not> isPointInPolygon endp poly then False
      else if \<not> isPointInPolygon (Point ((px start + px endp) / 2) ((py start + py endp) / 2)) poly
      then False
      else list_all (\<lambda>i. isPointInPolygon
               (Point (px start + (px endp - px start) * (real i / 5))
                      (py start + (py endp - py start) * (real i / 5))) poly) [1 ..< 5])"

text \<open>The navigation mesh: grid points 30 apart inside the polygon, then inset vertices.\<close>

function frange :: "real \<Rightarrow> real \<Rightarrow> real list" where
  "frange lo hi = (if lo \<le> hi then lo # frange (lo + 30) hi else [])"
  by pat_completeness auto

termination
proof (relation "measure (\<lambda>(lo, hi). nat (\<lfloor>(hi - lo) / 30\<rfloor> + 1))")
  show "wf (measure (\<lambda>(lo, hi). nat (\<lfloor>(hi - lo) / 30\<rfloor> + 1)))" by simp
next
  fix lo hi :: real
  assume le: "lo \<le> hi"
  have "(hi - (lo + 30)) / 30 = (hi - lo) / 30 - 1" by (simp add: field_simps)
  then have "\<lfloor>(hi - (lo + 30)) / 30\<rfloor> = \<lfloor>(hi - lo) / 30 - 1\<rfloor>" by (rule arg_cong)
  then have "\<lfloor>(hi - (lo + 30)) / 30\<rfloor> = \<lfloor>(hi - lo) / 30\<rfloor> - 1" by (simp only: floor_diff_one)
  moreover have "0 \<le> \<lfloor>(hi - lo) / 30\<rfloor>" using le by simp
  ultimately show "((lo + 30, hi), (lo, hi)) \<in> measure (\<lambda>(lo, hi). nat (\<lfloor>(hi - lo) / 30\<rfloor> + 1))"
    by simp
qed

definition inset_vertex :: "polygon \<Rightarrow> point \<Rightarrow> point list" where
  "inset_vertex poly p =
     (let center = getPolygonCenter poly;
          dx = px center - px p; dy = py center - py p;
          len = sqrt (dx * dx + dy * dy)
      in if len > 0
         then (let inset = Point (px p + dx / len * 15) (py p + dy / len * 15)
               in if isPointInPolygon inset poly then [inset] else [])
         else [])"

definition generateNavNodes :: "polygon \<Rightarrow> point list" where
  "generateNavNodes poly =
     (case points poly of
        [] \<Rightarrow> []
      | p # ps \<Rightarrow>
          (let minX = foldl min (px p) (map px ps); minY = foldl min (py p) (map py ps);
               maxX = foldl max (px p) (map px ps); maxY = foldl max (py p) (map py ps)
           in concat (map (\<lambda>x. filter (\<lambda>q. isPointInPolygon q poly) (map (Point x) (frange minY maxY)))
                        (frange minX maxX)) @
              concat (map (inset_vertex poly) (p # ps))))"

text \<open>
  Search nodes.  A node's parent is a node that has left the open set and is never
  changed again, so the parent is kept by value.  The closed set holds the points whose
  keys it holds in the source.
\<close>

datatype path_node =
  PathNode (node_point: point) (node_g: real) (node_h: real) (node_f: real) (node_parent: "path_node option")

fun reconstruct :: "path_node \<Rightarrow> point list" where
  "reconstruct (PathNode p g h f par) = (case par of None \<Rightarrow> [] | Some n \<Rightarrow> reconstruct n) @ [p]"

fun root_point :: "path_node \<Rightarrow> point" where
  "root_point (PathNode p g h f par) = (case par of None \<Rightarrow> p | Some n \<Rightarrow> root_point n)"

text \<open>\<open>smoothPath\<close>: from each waypoint jump to the furthest later one in direct sight.\<close>

definition furthest_visible :: "point list \<Rightarrow> polygon \<Rightarrow> nat \<Rightarrow> nat" where
  "furthest_visible path poly current =
     (case find (\<lambda>i. canWalkDirectly (path ! current) (path ! i) poly) (rev [current + 2 ..< length path]) of
        Some i \<Rightarrow> i
      | None \<Rightarrow> current + 1)"

function smooth_loop :: "point list \<Rightarrow> polygon \<Rightarrow> nat \<Rightarrow> point list \<Rightarrow> point list" where
  "smooth_loop path poly current smoothed =
     (if current < length path - 1
      then (let furthest = furthest_visible path poly current
            in smooth_loop path poly furthest (smoothed @ [path ! furthest]))
      else smoothed)"
  by pat_completeness auto

termination
proof (relation "measure (\<lambda>(path, poly, current, smoothed). length path - current)")
  show "wf (measure (\<lambda>(path, poly, current, smoothed). length path - current))" by simp
next
  fix path :: "point list" and poly :: polygon and current :: nat and smoothed :: "point list" and x :: nat
  assume c: "current < length path - 1" and x: "x = furthest_visible path poly current"
  have "current < x"
  proof (cases "find (\<lambda>i. canWalkDirectly (path ! current) (path ! i) poly) (rev [current + 2 ..< length path])")
    case None
    with x show ?thesis by (simp add: furthest_visible_def)
  next
    case (Some i)
    then have "i \<in> set (rev [current + 2 ..< length path])"
      by (metis find_Some_iff nth_mem)
    with Some x show ?thesis by (simp add: furthest_visible_def)
  qed
  with c show "((path, poly, x, smoothed @ [path ! x]), (path, poly, current, smoothed))
      \<in> measure (\<lambda>(path, poly, current, smoothed). length path - current)"
    by simp
qed

definition smoothPath :: "point list \<Rightarrow> polygon \<Rightarrow> point list" where
  "smoothPath path poly =
     (if length path \<le> 2 then path else smooth_loop path poly 0 [path ! 0])"

text \<open>
  The inner loop of the search for one mesh point, and the search itself.  Every
  round closes the point of the node it takes, and a point is pushed only when it is a
  mesh point neither closed nor open: \<open>astar_measure\<close> decreases.
\<close>

fun update_first :: "('a \<Rightarrow> bool) \<Rightarrow> ('a \<Rightarrow> 'a) \<Rightarrow> 'a list \<Rightarrow> 'a list" where
  "update_first P u [] = []"
| "update_first P u (x # xs) = (if P x then u x # xs else x # update_first P u xs)"

definition relax :: "polygon \<Rightarrow> point \<Rightarrow> point list \<Rightarrow> path_node \<Rightarrow> path_node list \<Rightarrow> point \<Rightarrow> path_node list" where
  "relax poly actualEnd closedSet current openSet neighborPoint =
     (if neighborPoint \<in> set closedSet then openSet
      else if \<not> canWalkDirectly (node_point current) neighborPoint poly then openSet
      else (let g = node_g current + distance (node_point current) neighborPoint;
                h = distance neighborPoint actualEnd;
                f = g + h
            in case find (\<lambda>n. node_point n = neighborPoint) openSet of
                 Some existing \<Rightarrow>
                   if g < node_g existing
                   then update_first (\<lambda>n. node_point n = neighborPoint)
                          (\<lambda>n. PathNode (node_point n) g (node_h n) f (Some current)) openSet
                   else openSet
               | None \<Rightarrow> openSet @ [PathNode neighborPoint g h f (Some current)]))"

definition astar_measure :: "point list \<Rightarrow> path_node list \<Rightarrow> point list \<Rightarrow> nat" where
  "astar_measure mesh openSet closedSet =
     length openSet + 2 * card (set mesh - set closedSet - node_point ` set openSet)"

function astar :: "polygon \<Rightarrow> point list \<Rightarrow> point \<Rightarrow> path_node list \<Rightarrow> point list \<Rightarrow> point list option" where
  "astar poly mesh actualEnd openSet closedSet =
     (case sort_key node_f openSet of
        [] \<Rightarrow> None
      | current # rest \<Rightarrow>
          if distance (node_point current) actualEnd < 5
          then Some (smoothPath (reconstruct current) poly)
          else (let closedSet' = node_point current # closedSet
                in astar poly mesh actualEnd
                     (foldl (relax poly actualEnd closedSet' current) rest mesh) closedSet'))"
  by pat_completeness auto

termination
proof (relation "measure (\<lambda>(poly, mesh, actualEnd, openSet, closedSet). astar_measure mesh openSet closedSet)")
  show "wf (measure (\<lambda>(poly, mesh, actualEnd, openSet, closedSet). astar_measure mesh openSet closedSet))"
    by simp
next
  fix poly :: polygon and mesh :: "point list" and actualEnd :: point
    and openSet :: "path_node list" and closedSet :: "point list"
    and current :: path_node and rest :: "path_node list" and closedSet' :: "point list"
  assume srt: "sort_key node_f openSet = current # rest"
    and cl: "closedSet' = node_point current # closedSet"
  have upd_len: "length (update_first P u xs) = length xs" for P u and xs :: "path_node list"
    by (induction xs) auto
  have upd_pts: "node_point ` set (update_first P (\<lambda>n. PathNode (node_point n) a (node_h n) b c) xs)
                   = node_point ` set xs" for P a b c and xs :: "path_node list"
    by (induction xs) auto
  have step: "astar_measure mesh (relax poly actualEnd closedSet' current ops np) closedSet'
                \<le> astar_measure mesh ops closedSet'"
    if np: "np \<in> set mesh" for ops np
  proof (cases "np \<in> set closedSet' \<or> \<not> canWalkDirectly (node_point current) np poly")
    case True
    then show ?thesis by (auto simp: relax_def)
  next
    case False
    show ?thesis
    proof (cases "find (\<lambda>n. node_point n = np) ops")
      case (Some existing)
      with False show ?thesis
        by (simp add: relax_def Let_def astar_measure_def upd_len upd_pts)
    next
      case None
      then have notin: "np \<notin> node_point ` set ops"
        by (auto simp: find_None_iff)
      let ?S = "set mesh - set closedSet' - node_point ` set ops"
      have mem: "np \<in> ?S" using np False notin by simp
      have fin: "finite ?S" by simp
      have r: "relax poly actualEnd closedSet' current ops np =
                 ops @ [PathNode np (node_g current + distance (node_point current) np)
                          (distance np actualEnd)
                          (node_g current + distance (node_point current) np + distance np actualEnd)
                          (Some current)]"
        using False None by (simp add: relax_def Let_def)
      have "set mesh - set closedSet' - node_point ` set (relax poly actualEnd closedSet' current ops np)
              = ?S - {np}"
        by (auto simp: r)
      moreover have "card (?S - {np}) = card ?S - 1" using mem fin by simp
      moreover have "0 < card ?S" using mem fin by (auto simp: card_gt_0_iff)
      ultimately show ?thesis
        by (simp add: astar_measure_def r)
    qed
  qed
  have fold_le: "astar_measure mesh (foldl (relax poly actualEnd closedSet' current) ops ns) closedSet'
                   \<le> astar_measure mesh ops closedSet'"
    if "set ns \<subseteq> set mesh" for ops ns
    using that
  proof (induction ns arbitrary: ops)
    case Nil
    show ?case by simp
  next
    case (Cons n ns)
    have "astar_measure mesh (foldl (relax poly actualEnd closedSet' current)
             (relax poly actualEnd closedSet' current ops n) ns) closedSet'
          \<le> astar_measure mesh (relax poly actualEnd closedSet' current ops n) closedSet'"
      using Cons by simp
    also have "\<dots> \<le> astar_measure mesh ops closedSet'"
      using step [of n ops] Cons.prems by simp
    finally show ?case by simp
  qed
  have len: "length openSet = Suc (length rest)"
    using srt by (metis length_Cons length_sort)
  have pts: "node_point ` set openSet = insert (node_point current) (node_point ` set rest)"
    using srt by (metis image_insert list.simps(15) set_sort)
  have "set mesh - set closedSet' - node_point ` set rest
          \<subseteq> set mesh - set closedSet - node_point ` set openSet"
    using cl pts by auto
  then have "card (set mesh - set closedSet' - node_point ` set rest)
               \<le> card (set mesh - set closedSet - node_point ` set openSet)"
    by (intro card_mono) simp_all
  then have pop: "astar_measure mesh rest closedSet' < astar_measure mesh openSet closedSet"
    using len by (simp add: astar_measure_def)
  from fold_le [of mesh rest] pop
  show "((poly, mesh, actualEnd, foldl (relax poly actualEnd closedSet' current) rest mesh, closedSet'),
         (poly, mesh, actualEnd, openSet, closedSet))
        \<in> measure (\<lambda>(poly, mesh, actualEnd, openSet, closedSet). astar_measure mesh openSet closedSet)"
    by simp
qed

declare astar.simps [simp del]

declare smooth_loop.simps [simp del]

definition findPath :: "point \<Rightarrow> point \<Rightarrow> polygon \<Rightarrow> js_error + point list" where
  "findPath start endp poly =
     (case getClosestPointInPolygon start poly of
        Inl e \<Rightarrow> Inl e
      | Inr actualStart \<Rightarrow>
          (case getClosestPointInPolygon endp poly of
             Inl e \<Rightarrow> Inl e
           | Inr actualEnd \<Rightarrow>
               if canWalkDirectly actualStart actualEnd poly then Inr [actualStart, actualEnd]
               else (let mesh = generateNavNodes poly @ [actualStart, actualEnd];
                         startNode = PathNode actualStart 0 (distance actualStart actualEnd)
                                       (distance actualStart actualEnd) None
                     in case astar poly mesh actualEnd [startNode] [] of
                          Some path \<Rightarrow> Inr path
                        | None \<Rightarrow> Inr [actualStart, actualEnd])))"

definition getDirection :: "point \<Rightarrow> point \<Rightarrow> facing" where
  "getDirection a b = (if px b < px a then FLeft else FRight)"


section \<open>Action dispatcher (GameScene.ts)\<close>

text \<open>
  Rooms, hotspots and exits with the fields the dispatcher reads.  The \<open>onComplete\<close>
  callback of a queued action is kept as the command list it starts.  The scene record
  holds the fields of the scene object that the queue depends on, the store, and what
  the scene calls outside itself: \<open>started\<close> lists the calls of \<open>runScriptWithContext\<close>
  (with whether \<open>processNextAction\<close> is chained to the result), \<open>walkSignals\<close> counts the
  calls of \<open>signalWalkComplete\<close>.  What a started script later does to the scene, through
  the events it emits, is not followed.  An exception leaves the scene as it is when
  thrown.
\<close>

record Hotspot =
  hotspotId :: string
  hotspotName :: string
  hotspotPolygon :: polygon
  interactionPoint :: point
  lookScript :: "command list option"
  useScript :: "command list option"
  talkScript :: "command list option"
  useWithItem :: "(string \<times> command list) list option"
  hotspotCondition :: "string option"

record RoomExit =
  exitId :: string
  targetRoom :: string
  targetPosition :: "point option"
  exitPolygon :: polygon
  exitCondition :: "string option"

record RoomDefinition =
  roomId :: string
  walkableArea :: polygon
  exits :: "RoomExit list"
  hotspots :: "Hotspot list"
  roomOnEnter :: "command list option"

datatype action_type = AWalk | AInteract | AUse | ATalk | ALook | AUseItem

record QueuedAction =
  actionType :: action_type
  target :: "point option"
  actionHotspotId :: "string option"
  actionCharacterId :: "string option"
  actionItemId :: "string option"
  onComplete :: "command list option"

record scene =
  sceneRoom :: "RoomDefinition option"
  itemData :: "(string \<times> string) list"
  player :: point
  playerPath :: "point list"
  playerDistanceTraveled :: real
  isWalking :: bool
  actionQueue :: "QueuedAction list"
  currentAction :: "QueuedAction option"
  selectedItem :: "string option"
  store :: GameState
  started :: "(command list \<times> bool) list"
  walkSignals :: nat
  sceneConsole :: "string list"

definition plain_action :: "action_type \<Rightarrow> QueuedAction" where
  "plain_action t =
     \<lparr> actionType = t, target = None, actionHotspotId = None, actionCharacterId = None,
       actionItemId = None, onComplete = None \<rparr>"

definition start_script :: "command list \<Rightarrow> bool \<Rightarrow> scene \<Rightarrow> scene" where
  "start_script cmds thenNext s = s\<lparr>started := started s @ [(cmds, thenNext)]\<rparr>"

definition walk_action :: "point \<Rightarrow> QueuedAction" where
  "walk_action t = (plain_action AWalk)\<lparr>target := Some t\<rparr>"

text \<open>The hotspot and the exit under a point; a condition that is present and false hides.\<close>

definition condition_hides :: "js_engine \<Rightarrow> string option \<Rightarrow> GameState \<Rightarrow> bool \<times> string list" where
  "condition_hides js cond gs =
     (case cond of
        None \<Rightarrow> (False, [])
      | Some c \<Rightarrow> if c = [] then (False, [])
                  else (let (ok, msgs) = evaluateCondition js c gs in (\<not> ok, msgs)))"

fun hotspot_at :: "js_engine \<Rightarrow> string \<Rightarrow> GameState \<Rightarrow> point \<Rightarrow> Hotspot list \<Rightarrow> Hotspot option \<times> string list" where
  "hotspot_at js rid gs p [] = (None, [])"
| "hotspot_at js rid gs p (h # hs) =
     (if \<not> isHotspotEnabled rid (hotspotId h) gs then hotspot_at js rid gs p hs
      else (let (hidden, msgs) = condition_hides js (hotspotCondition h) gs
            in if hidden then (let (res, more) = hotspot_at js rid gs p hs in (res, msgs @ more))
               else if isPointInPolygon p (hotspotPolygon h) then (Some h, msgs)
               else (let (res, more) = hotspot_at js rid gs p hs in (res, msgs @ more))))"

definition getHotspotAt :: "js_engine \<Rightarrow> point \<Rightarrow> scene \<Rightarrow> Hotspot option \<times> string list" where
  "getHotspotAt js p s =
     (case sceneRoom s of
        None \<Rightarrow> (None, [])
      | Some room \<Rightarrow> hotspot_at js (roomId room) (store s) p (hotspots room))"

fun exit_at :: "js_engine \<Rightarrow> GameState \<Rightarrow> point \<Rightarrow> RoomExit list \<Rightarrow> RoomExit option \<times> string list" where
  "exit_at js gs p [] = (None, [])"
| "exit_at js gs p (x # xs) =
     (let (hidden, msgs) = condition_hides js (exitCondition x) gs
      in if hidden then (let (res, more) = exit_at js gs p xs in (res, msgs @ more))
         else if isPointInPolygon p (exitPolygon x) then (Some x, msgs)
         else (let (res, more) = exit_at js gs p xs in (res, msgs @ more)))"

definition getExitAt :: "js_engine \<Rightarrow> point \<Rightarrow> scene \<Rightarrow> RoomExit option \<times> string list" where
  "getExitAt js p s =
     (case sceneRoom s of
        None \<Rightarrow> (None, [])
      | Some room \<Rightarrow> exit_at js (store s) p (exits room))"

definition find_hotspot :: "string option \<Rightarrow> RoomDefinition \<Rightarrow> Hotspot option" where
  "find_hotspot hid room =
     (case hid of None \<Rightarrow> None | Some i \<Rightarrow> find (\<lambda>h. hotspotId h = i) (hotspots room))"

text \<open>The interactions; an absent character id is written \<open>undefined\<close>.\<close>

definition handleUse :: "string option \<Rightarrow> scene \<Rightarrow> scene" where
  "handleUse hid s =
     (case sceneRoom s of
        None \<Rightarrow> s
      | Some room \<Rightarrow>
          (case find_hotspot hid room of
             None \<Rightarrow> start_script [Thought ''I can't use that.''] True s
           | Some hotspot \<Rightarrow>
               (case useScript hotspot of
                  None \<Rightarrow> start_script [Thought ''I can't use that.''] True s
                | Some script \<Rightarrow>
                    start_script script True
                      (s\<lparr>store := setPlayerFacing (getDirection (player s) (interactionPoint hotspot))
                                      (store s)\<rparr>))))"

definition handleUseItem :: "string option \<Rightarrow> string option \<Rightarrow> scene \<Rightarrow> scene" where
  "handleUseItem hid iid s =
     (case sceneRoom s of
        None \<Rightarrow> s
      | Some room \<Rightarrow>
          (let s1 = s\<lparr>selectedItem := None\<rparr>
           in case find_hotspot hid room of
                None \<Rightarrow> start_script [Thought ''That doesn't work.''] True s1
              | Some hotspot \<Rightarrow>
                  (case (case (useWithItem hotspot, iid) of
                           (Some m, Some i) \<Rightarrow> map_of m i
                         | _ \<Rightarrow> None) of
                     Some itemScript \<Rightarrow> start_script itemScript True s1
                   | None \<Rightarrow>
                       (let itemName = (case (case iid of None \<Rightarrow> None | Some i \<Rightarrow> map_of (itemData s1) i) of
                                          None \<Rightarrow> ''that''
                                        | Some n \<Rightarrow> if n = [] then ''that'' else n)
                        in start_script [Thought (''I can't use the '' @ itemName @ '' on that.'')] True s1))))"

definition handleLook :: "string option \<Rightarrow> scene \<Rightarrow> scene" where
  "handleLook hid s =
     (case sceneRoom s of
        None \<Rightarrow> s
      | Some room \<Rightarrow>
          (case find_hotspot hid room of
             None \<Rightarrow> start_script [Narrate ''Nothing special.''] True s
           | Some hotspot \<Rightarrow>
               (case lookScript hotspot of
                  None \<Rightarrow> start_script
                            [Narrate (if hotspotName hotspot = [] then ''Nothing special.''
                                      else hotspotName hotspot)] True s
                | Some script \<Rightarrow> start_script script True s)))"

definition handleTalk :: "string option \<Rightarrow> scene \<Rightarrow> scene" where
  "handleTalk cid s =
     start_script [StartDialogue (case cid of None \<Rightarrow> ''undefined'' | Some c \<Rightarrow> c) None] True s"

text \<open>
  \<open>processNextAction\<close>, \<open>walkTo\<close> and \<open>onWalkComplete\<close> call each other; each round takes
  an action off the queue.
\<close>

function processNextAction :: "scene \<Rightarrow> js_error option \<times> scene"
  and walkTo :: "point \<Rightarrow> scene \<Rightarrow> js_error option \<times> scene"
  and onWalkComplete :: "scene \<Rightarrow> js_error option \<times> scene" where
  "processNextAction s =
     (case actionQueue s of
        [] \<Rightarrow> (None, s\<lparr>currentAction := None\<rparr>)
      | a # q \<Rightarrow>
          (let s1 = s\<lparr>currentAction := Some a, actionQueue := q\<rparr>
           in case actionType a of
                AWalk \<Rightarrow> (case target a of Some t \<Rightarrow> walkTo t s1 | None \<Rightarrow> (None, s1))
              | AInteract \<Rightarrow>
                  processNextAction
                    (case onComplete a of Some cmds \<Rightarrow> start_script cmds False s1 | None \<Rightarrow> s1)
              | AUse \<Rightarrow> (None, handleUse (actionHotspotId a) s1)
              | AUseItem \<Rightarrow> (None, handleUseItem (actionHotspotId a) (actionItemId a) s1)
              | ALook \<Rightarrow> (None, handleLook (actionHotspotId a) s1)
              | ATalk \<Rightarrow> (None, handleTalk (actionCharacterId a) s1)))"
| "walkTo t s =
     (case sceneRoom s of
        None \<Rightarrow> (None, s)
      | Some room \<Rightarrow>
          (case findPath (player s) t (walkableArea room) of
             Inl e \<Rightarrow> (Some e, s)
           | Inr path \<Rightarrow>
               if length path < 2 then onWalkComplete s
               else (None, s\<lparr>playerPath := path, playerDistanceTraveled := 0, isWalking := True,
                              store := setPlayerFacing (getDirection (path ! 0) (path ! 1)) (store s)\<rparr>)))"
| "onWalkComplete s =
     processNextAction (s\<lparr>isWalking := False, playerPath := [], walkSignals := Suc (walkSignals s)\<rparr>)"
  by pat_completeness auto

termination
  by (relation "measure (\<lambda>x. case x of
         Inl s \<Rightarrow> 3 * length (actionQueue s)
       | Inr (Inl (t, s)) \<Rightarrow> 3 * length (actionQueue s) + 2
       | Inr (Inr s) \<Rightarrow> 3 * length (actionQueue s) + 1)")
     (auto simp: start_script_def split: option.splits)

declare processNextAction.simps [simp del] walkTo.simps [simp del] onWalkComplete.simps [simp del]

text \<open>
  A click.  \<open>click_chain\<close> is the list that the click assigns to the queue;
  \<open>pending_actions\<close> are the actions a scene still holds, queued or current.  The
  \<open>pointerdown\<close> handler drops the click while a script runs.
\<close>

definition queueAction :: "QueuedAction \<Rightarrow> scene \<Rightarrow> js_error option \<times> scene" where
  "queueAction a s = processNextAction (s\<lparr>actionQueue := [a]\<rparr>)"

definition hotspot_chain :: "Hotspot \<Rightarrow> scene \<Rightarrow> QueuedAction list" where
  "hotspot_chain hotspot s =
     [walk_action (interactionPoint hotspot),
      (case selectedItem s of
         Some sel \<Rightarrow>
           if sel \<noteq> []
           then (plain_action AUseItem)\<lparr>actionHotspotId := Some (hotspotId hotspot), actionItemId := Some sel\<rparr>
           else (plain_action AUse)\<lparr>actionHotspotId := Some (hotspotId hotspot)\<rparr>
       | None \<Rightarrow> (plain_action AUse)\<lparr>actionHotspotId := Some (hotspotId hotspot)\<rparr>)]"

definition queueHotspotInteraction :: "Hotspot \<Rightarrow> scene \<Rightarrow> js_error option \<times> scene" where
  "queueHotspotInteraction hotspot s = processNextAction (s\<lparr>actionQueue := hotspot_chain hotspot s\<rparr>)"

definition exit_chain :: "RoomExit \<Rightarrow> QueuedAction list" where
  "exit_chain ex =
     [walk_action (getPolygonCenter (exitPolygon ex)),
      (plain_action AInteract)\<lparr>target := targetPosition ex,
         onComplete := Some [GoToRoom (targetRoom ex) (targetPosition ex)]\<rparr>]"

definition queueExitInteraction :: "RoomExit \<Rightarrow> scene \<Rightarrow> js_error option \<times> scene" where
  "queueExitInteraction ex s = processNextAction (s\<lparr>actionQueue := exit_chain ex\<rparr>)"

definition handleClick :: "js_engine \<Rightarrow> point \<Rightarrow> scene \<Rightarrow> js_error option \<times> scene" where
  "handleClick js p s =
     (case sceneRoom s of
        None \<Rightarrow> (None, s)
      | Some room \<Rightarrow>
          (let (h, msgs1) = getHotspotAt js p s;
               s1 = s\<lparr>sceneConsole := sceneConsole s @ msgs1\<rparr>
           in case h of
                Some hotspot \<Rightarrow> queueHotspotInteraction hotspot s1
              | None \<Rightarrow>
                  (let (x, msgs2) = getExitAt js p s1;
                       s2 = s1\<lparr>sceneConsole := sceneConsole s1 @ msgs2\<rparr>
                   in case x of
                        Some ex \<Rightarrow> queueExitInteraction ex s2
                      | None \<Rightarrow>
                          if isPointInPolygon p (walkableArea room) then queueAction (walk_action p) s2
                          else (case getClosestPointInPolygon p (walkableArea room) of
                                  Inl e \<Rightarrow> (Some e, s2)
                                | Inr closest \<Rightarrow> queueAction (walk_action closest) s2))))"

definition pointerdown :: "js_engine \<Rightarrow> bool \<Rightarrow> point \<Rightarrow> scene \<Rightarrow> js_error option \<times> scene" where
  "pointerdown js scriptRunning p s = (if scriptRunning then (None, s) else handleClick js p s)"

definition click_chain :: "js_engine \<Rightarrow> point \<Rightarrow> scene \<Rightarrow> QueuedAction list" where
  "click_chain js p s =
     (case sceneRoom s of
        None \<Rightarrow> []
      | Some room \<Rightarrow>
          (case fst (getHotspotAt js p s) of
             Some hotspot \<Rightarrow> hotspot_chain hotspot s
           | None \<Rightarrow>
               (case fst (getExitAt js p s) of
                  Some ex \<Rightarrow> exit_chain ex
                | None \<Rightarrow>
                    if isPointInPolygon p (walkableArea room) then [walk_action p]
                    else (case getClosestPointInPolygon p (walkableArea room) of
                            Inl e \<Rightarrow> []
                          | Inr closest \<Rightarrow> [walk_action closest]))))"

definition pending_actions :: "scene \<Rightarrow> QueuedAction set" where
  "pending_actions s = set (actionQueue s) \<union> set_option (currentAction s)"


section \<open>Example data\<close>

text \<open>
  A character with two trees, the second of higher priority; the start node sets a flag
  on entry.  \<open>talk_started\<close> is the state after the talk action has started its script
  \<open>startDialogue\<close>, which waits for the dialogue to complete.
\<close>

definition always_true :: js_engine where
  "always_true c gs = Returns (VBool True)"

definition intro_node :: DialogueNode where
  "intro_node =
     \<lparr> nodeId = ''start'', speaker = Some ''Maybelle'', nodeText = ''Well now'', voiceLine = None,
       portrait = None, choices = None, nextNode = Some ''end'',
       onEnter = Some [SetFlag ''met_maybelle'' (FBool True)], onExit = None,
       endConversation = None \<rparr>"

definition intro_tree :: DialogueTreeDefinition where
  "intro_tree =
     \<lparr> treeId = ''intro'', characterId = ''maybelle'', startNode = ''start'',
       nodes = [(''start'', intro_node)], metadata = None \<rparr>"

definition quest_tree :: DialogueTreeDefinition where
  "quest_tree =
     \<lparr> treeId = ''quest'', characterId = ''maybelle'', startNode = ''start'',
       nodes = [(''start'', intro_node)],
       metadata = Some \<lparr> title = None, description = None, priority = Some 10,
                         availability = None, oneTime = None \<rparr> \<rparr>"

definition maybelle_file :: DialogueFile where
  "maybelle_file =
     \<lparr> version = ''1'', fileCharacterId = ''maybelle'', characterName = ''Maybelle'',
       defaultPortrait = None, dialogues = [intro_tree, quest_tree] \<rparr>"

definition talk_started :: manager where
  "talk_started =
     (snd (loadDialogueFile maybelle_file (empty_loader, initial_manager)))
       \<lparr>scripts := runScriptWithContext always_true [StartDialogue ''maybelle'' None] initial_runner\<rparr>"


text \<open>A square room, and a room with a narrow notch cut into it from one side.\<close>

definition notched_room :: polygon where
  "notched_room = \<lparr> points = [Point 0 0, Point 10 0, Point 10 10, Point 6 10, Point 5 1, Point 4 10, Point 0 10] \<rparr>"

definition square_room :: polygon where
  "square_room = \<lparr> points = [Point 0 0, Point 10 0, Point 10 10, Point 0 10] \<rparr>"








section \<open>Properties\<close>

subsection \<open>Reputation\<close>






subsection \<open>Condition evaluation never throws\<close>

text \<open>
  C4.  \<open>evaluateCondition\<close> returns a boolean on every condition string (the model has
  no exception outcome: the only code that can throw sits inside the \<open>try\<close>).  An empty
  or whitespace-only condition gives true, with nothing reported; a condition whose
  evaluation throws gives false, and the failure is written to the error console.
\<close>

theorem evaluateCondition_never_throws:
  "(trim c = [] \<longrightarrow> evaluateCondition js c gs = (True, [])) \<and>
   (trim c \<noteq> [] \<longrightarrow> js c gs = Throws e \<longrightarrow>
      fst (evaluateCondition js c gs) = False \<and>
      snd (evaluateCondition js c gs) = [''Failed to evaluate condition: '' @ c @ '' '' @ e])"
  by (auto simp: evaluateCondition_def evalFunc_def trim_def)

theorem evaluateCondition_never_throws_witness:
  "trim [CHR 0x20, CHR 0x09] = [] \<and>
   evaluateCondition (\<lambda>c g. Throws ''SyntaxError'') [CHR 0x20, CHR 0x09] createInitialState = (True, []) \<and>
   trim ''hasItem('' \<noteq> [] \<and>
   evaluateCondition (\<lambda>c g. Throws ''SyntaxError'') ''hasItem('' createInitialState =
     (False, [''Failed to evaluate condition: hasItem( SyntaxError''])"
proof -
  have a: "trim [CHR 0x20, CHR 0x09] = []"
    by (simp add: trim_def is_space_def)
  have b: "trim ''hasItem('' \<noteq> []"
    by (simp add: trim_def is_space_def)
  have t: "(\<lambda>c g. Throws ''SyntaxError'') ''hasItem('' createInitialState = Throws ''SyntaxError''"
    by simp
  from evaluateCondition_never_throws
         [of "[CHR 0x20, CHR 0x09]" "\<lambda>c g. Throws ''SyntaxError''" createInitialState "''SyntaxError''"]
  have 1: "evaluateCondition (\<lambda>c g. Throws ''SyntaxError'') [CHR 0x20, CHR 0x09] createInitialState = (True, [])"
    using a by blast
  from evaluateCondition_never_throws
         [of "''hasItem(''" "\<lambda>c g. Throws ''SyntaxError''" createInitialState "''SyntaxError''"]
  have 2: "fst (evaluateCondition (\<lambda>c g. Throws ''SyntaxError'') ''hasItem('' createInitialState) = False \<and>
           snd (evaluateCondition (\<lambda>c g. Throws ''SyntaxError'') ''hasItem('' createInitialState) =
             [''Failed to evaluate condition: '' @ ''hasItem('' @ '' '' @ ''SyntaxError'']"
    using b t by blast
  have 3: "evaluateCondition (\<lambda>c g. Throws ''SyntaxError'') ''hasItem('' createInitialState =
     (False, [''Failed to evaluate condition: hasItem( SyntaxError''])"
    using 2 by (simp add: prod_eq_iff)
  show ?thesis using a b 1 3 by simp
qed

subsection \<open>Saving touches one slot\<close>










lemma string_of_int_1: "string_of_int 1 = ''1''"
  by code_simp



subsection \<open>Loading\<close>

lemma loadGame_false_unchanged: "fst (loadGame slot ls g) = False \<Longrightarrow> snd (loadGame slot ls g) = g"
  by (auto simp: loadGame_def Let_def split: sum.splits option.splits if_splits)

lemma get_field_truthy: "json_truthy sd \<Longrightarrow> \<exists>e. get_field sd f = Inr e"
  by (cases sd) auto

text \<open>
  C8, as amended.  A load that returns false leaves the state unchanged.  It returns
  false when the slot holds no entry (absent or falsy), and when the stored text is
  absent, unreadable or does not parse.  Every other load returns true and replaces the
  state by a copy of whatever the entry has as \<open>gameState\<close> (an empty object when the
  entry has none): the shape of the entry is not checked.
\<close>

theorem loadGame_failure_keeps_state:
  "(fst (loadGame slot ls g) = False \<longrightarrow> snd (loadGame slot ls g) = g) \<and>
   (storedSave ls slot = None \<longrightarrow> loadGame slot ls g = (False, g)) \<and>
   (item ls = None \<or> getItem_throws ls \<or> (\<exists>t. item ls = Some (Garbage t))
      \<longrightarrow> loadGame slot ls g = (False, g)) \<and>
   (\<forall>sd. storedSave ls slot = Some sd \<longrightarrow>
      (\<exists>e. get_field sd ''gameState'' = Inr e \<and> loadGame slot ls g = (True, spread e)))"
proof (intro conjI impI allI)
  assume "fst (loadGame slot ls g) = False"
  then show "snd (loadGame slot ls g) = g" by (rule loadGame_false_unchanged)
next
  assume "storedSave ls slot = None"
  then show "loadGame slot ls g = (False, g)"
    by (auto simp: loadGame_def storedSave_def Let_def truthy_def split: sum.splits option.splits if_splits)
next
  assume "item ls = None \<or> getItem_throws ls \<or> (\<exists>t. item ls = Some (Garbage t))"
  then have "getSaveSlots ls = JObj []"
    by (auto simp: getSaveSlots_def getItem_def)
  then show "loadGame slot ls g = (False, g)"
    by (simp add: loadGame_def truthy_def)
next
  fix sd
  assume "storedSave ls slot = Some sd"
  then have gs: "get_slot (getSaveSlots ls) slot = Inr (Some sd)" and t: "json_truthy sd"
    by (auto simp: storedSave_def truthy_def split: sum.splits option.splits if_splits)
  from get_field_truthy [OF t] obtain e where e: "get_field sd ''gameState'' = Inr e" by blast
  have "loadGame slot ls g = (True, spread e)"
    using gs t e by (simp add: loadGame_def truthy_def)
  with e show "\<exists>e. get_field sd ''gameState'' = Inr e \<and> loadGame slot ls g = (True, spread e)"
    by blast
qed

theorem loadGame_failure_keeps_state_witness:
  "storedSave \<lparr>item = Some (Garbage ''{oops''), getItem_throws = False, setItem_throws = False\<rparr> 1 = None \<and>
   loadGame 1 \<lparr>item = Some (Garbage ''{oops''), getItem_throws = False, setItem_throws = False\<rparr>
      (encode_state createInitialState) = (False, encode_state createInitialState) \<and>
   storedSave \<lparr>item = Some (Encoded (JObj [(''1'', JObj [(''gameState'', JObj [(''reputation'', JNum 5)])])])),
        getItem_throws = False, setItem_throws = False\<rparr> 1 = Some (JObj [(''gameState'', JObj [(''reputation'', JNum 5)])]) \<and>
   loadGame 1 \<lparr>item = Some (Encoded (JObj [(''1'', JObj [(''gameState'', JObj [(''reputation'', JNum 5)])])])),
        getItem_throws = False, setItem_throws = False\<rparr>
      (encode_state createInitialState) = (True, JObj [(''reputation'', JNum 5)])"
proof -
  let ?bad = "\<lparr>item = Some (Garbage ''{oops''), getItem_throws = False, setItem_throws = False\<rparr>"
  let ?good = "\<lparr>item = Some (Encoded (JObj [(''1'', JObj [(''gameState'', JObj [(''reputation'', JNum 5)])])])),
        getItem_throws = False, setItem_throws = False\<rparr>"
  let ?g = "encode_state createInitialState"
  have a: "storedSave ?bad 1 = None"
    by (simp add: storedSave_def getSaveSlots_def getItem_def truthy_def)
  have b: "storedSave ?good 1 = Some (JObj [(''gameState'', JObj [(''reputation'', JNum 5)])])"
    by (simp add: storedSave_def getSaveSlots_def getItem_def truthy_def string_of_int_1)
  from loadGame_failure_keeps_state [of 1 ?bad ?g] a
  have c: "loadGame 1 ?bad ?g = (False, ?g)" by blast
  from loadGame_failure_keeps_state [of 1 ?good ?g] b
  have "\<exists>e. get_field (JObj [(''gameState'', JObj [(''reputation'', JNum 5)])]) ''gameState'' = Inr e \<and>
            loadGame 1 ?good ?g = (True, spread e)" by blast
  then have d: "loadGame 1 ?good ?g = (True, JObj [(''reputation'', JNum 5)])" by auto
  show ?thesis using a b c d by simp
qed

text \<open>
  The claim as stated fails: a stored entry that is no save record (it has no
  \<open>gameState\<close>) loads with result true, and the state becomes the empty object.
\<close>

theorem loadGame_corrupt_counterexample:
  "\<not> is_SaveData (JObj [(''version'', JStr ''1.0.0'')]) \<and>
   storedSave \<lparr>item = Some (Encoded (JObj [(''1'', JObj [(''version'', JStr ''1.0.0'')])])),
        getItem_throws = False, setItem_throws = False\<rparr> 1 = Some (JObj [(''version'', JStr ''1.0.0'')]) \<and>
   loadGame 1 \<lparr>item = Some (Encoded (JObj [(''1'', JObj [(''version'', JStr ''1.0.0'')])])),
        getItem_throws = False, setItem_throws = False\<rparr>
      (encode_state createInitialState) = (True, JObj []) \<and>
   encode_state createInitialState \<noteq> JObj []"
  by (simp add: is_SaveData_def storedSave_def getSaveSlots_def getItem_def truthy_def
        string_of_int_1 loadGame_def encode_state_def)

subsection \<open>Dialogue validation\<close>









subsection \<open>Commands run in list order\<close>



lemma frames_effect_simps [simp]:
  "frames_effect js [] g = g"
  "frames_effect js (f # k) g = frames_effect js k (frame_effect js f g)"
  "frames_effect js (k1 @ k2) g = frames_effect js k2 (frames_effect js k1 g)"
  by (simp_all add: frames_effect_def)

lemma world_emit [simp]: "world (emit ev r) = world r"
  by (simp add: emit_def)

lemma world_wait [simp]:
  "world (waitForDialogueDismiss tid r) = world r"
  "world (waitForDialogueComplete tid r) = world r"
  "world (waitForWalkComplete cid tid r) = world r"
  by (simp_all add: waitForDialogueDismiss_def waitForDialogueComplete_def waitForWalkComplete_def)





lemma executeCommand_fields:
  "executeCommand js tid c r = (x, r') \<Longrightarrow>
     tasks r' = tasks r \<and> completed r' = completed r \<and> next_task r' = next_task r"
  by (cases c)
     (auto simp: Let_def emit_def waitForDialogueDismiss_def waitForDialogueComplete_def
        waitForWalkComplete_def split: prod.splits if_splits option.splits)

lemma exec_fields:
  "exec js tid k r = (res, r') \<Longrightarrow>
     tasks r' = tasks r \<and> completed r' = completed r \<and> next_task r' = next_task r"
proof (induction js tid k r arbitrary: res r' rule: exec.induct)
  case (3 js tid c cs k r)
  obtain x r1 where ec: "executeCommand js tid c r = (x, r1)" by (cases "executeCommand js tid c r")
  note f = executeCommand_fields [OF ec]
  show ?case
  proof (cases x)
    case Done
    with ec "3.prems" have e: "exec js tid (FCmds cs # k) r1 = (res, r')" by simp
    from "3.IH"(1) [OF ec [symmetric] Done e] f show ?thesis by simp
  next
    case (Suspend p k')
    with ec "3.prems" f show ?thesis by auto
  next
    case (Call cmds)
    with ec "3.prems" have e: "exec js tid (FCmds cmds # FCmds cs # k) r1 = (res, r')" by simp
    from "3.IH"(2) [OF ec [symmetric] Call e] f show ?thesis by simp
  qed
next
  case (4 js tid room pos k r)
  then show ?case by (auto simp: emit_def)
next
  case (5 js tid k r)
  from "5.IH" [OF "5.prems" [simplified]] show ?case by simp
qed auto



lemma frames_size_simps [simp]:
  "frames_size [] = 0"
  "frames_size (f # k) = frame_size f + frames_size k"
  "frames_size (k1 @ k2) = frames_size k1 + frames_size k2"
  by (simp_all add: frames_size_def)

















subsection \<open>Which tree a dialogue starts\<close>

lemma update_fresh: "k \<notin> fst ` set al \<Longrightarrow> AList.update k v al = al @ [(k, v)]"
  by (induction al) auto

lemma register_all_trees:
  "distinct (map fst (dialogueTrees s) @ map treeId ts) \<Longrightarrow>
     dialogueTrees (register_all ts s) = dialogueTrees s @ map (\<lambda>t. (treeId t, t)) ts"
proof (induction ts arbitrary: s)
  case Nil
  show ?case by (simp add: register_all_def)
next
  case (Cons t ts)
  from Cons.prems have fresh: "treeId t \<notin> fst ` set (dialogueTrees s)" by auto
  let ?s1 = "registerDialogueTree t s"
  have d1: "dialogueTrees ?s1 = dialogueTrees s @ [(treeId t, t)]"
    using update_fresh [OF fresh] by (simp add: registerDialogueTree_def)
  have "distinct (map fst (dialogueTrees ?s1) @ map treeId ts)"
    using Cons.prems d1 by auto
  from Cons.IH [OF this] d1 show ?case
    by (simp add: register_all_def)
qed

lemma register_all_fields:
  "currentTree (register_all ts s) = currentTree s \<and> scripts (register_all ts s) = scripts s"
  by (induction ts arbitrary: s) (simp_all add: register_all_def registerDialogueTree_def)

text \<open>
  C6, as amended.  When trees with distinct ids are registered in some order,
  \<open>startDialogue\<close> without a node id makes current the first registered tree of the
  character, and enters its start node; with no tree of the character it only writes a
  warning.  Priority and availability play no part: a registered tree carries neither.
\<close>

theorem startDialogue_first_registered:
  "distinct (map treeId ts) \<Longrightarrow> dialogueTrees s = [] \<Longrightarrow>
     startDialogue fuel js cid None (register_all ts s) =
       (case find (\<lambda>t. characterId t = cid) ts of
          None \<Rightarrow> Some (console_write (''No dialogue tree found for character: '' @ cid) (register_all ts s))
        | Some tree \<Rightarrow>
            drun fuel js (EnterNode (startNode tree))
              ((register_all ts s)\<lparr>currentTree := Some tree, isDialogueActive := True\<rparr>))"
proof -
  assume d: "distinct (map treeId ts)" and e: "dialogueTrees s = []"
  have "dialogueTrees (register_all ts s) = map (\<lambda>t. (treeId t, t)) ts"
    using register_all_trees [of s ts] d e by simp
  then have "map snd (dialogueTrees (register_all ts s)) = ts"
    by (simp add: comp_def)
  then show ?thesis
    by (simp add: startDialogue_def split: option.splits)
qed

lemma loaded_trees:
  "dialogueTrees (snd (loadDialogueFile maybelle_file (empty_loader, initial_manager))) =
     [(''intro'', convertToEngineFormat intro_tree), (''quest'', convertToEngineFormat quest_tree)]"
  by (simp add: loadDialogueFile_def maybelle_file_def empty_loader_def initial_manager_def
        registerDialogueTree_def convertToEngineFormat_def intro_tree_def quest_tree_def)

lemma loaded_files:
  "dialogueFiles (fst (loadDialogueFile maybelle_file (empty_loader, initial_manager))) =
     [(''maybelle'', maybelle_file)]"
  by (simp add: loadDialogueFile_def maybelle_file_def empty_loader_def)

lemma loaded_rest:
  "currentTree (snd (loadDialogueFile maybelle_file (empty_loader, initial_manager))) = None \<and>
   scripts (snd (loadDialogueFile maybelle_file (empty_loader, initial_manager))) = initial_runner"
  by (simp add: loadDialogueFile_def maybelle_file_def empty_loader_def initial_manager_def
        registerDialogueTree_def)

lemma priority_pick:
  "chosen_id (findDialogueForCharacter always_true ''maybelle''
       (fst (loadDialogueFile maybelle_file (empty_loader, initial_manager))) createInitialState)
     = Some ''quest''"
  by (simp add: findDialogueForCharacter_def loaded_files chosen_id_def)
     (simp add: maybelle_file_def priority_of_def availability_of_def intro_tree_def quest_tree_def)

lemma onEnter_runs_at_once:
  "\<exists>s'. await_script js [SetFlag f v] w s = (Some w, s') \<and> currentTree s' = currentTree s \<and>
        isRunningScript (scripts s') = False \<and> tasks (scripts s') = tasks (scripts s)"
  by (simp add: await_script_def runScriptWithContext_def start_task_def finish_def Let_def)

lemma enter_intro:
  assumes ct: "currentTree s = Some (convertToEngineFormat intro_tree)"
  shows "\<exists>s3. drun 3 always_true (EnterNode ''start'') s = Some s3 \<and>
          currentTree s3 = Some (convertToEngineFormat intro_tree) \<and>
          isRunningScript (scripts s3) = False \<and> tasks (scripts s3) = tasks (scripts s)"
proof -
  let ?t = "convertToEngineFormat intro_tree"
  let ?n = "convertNode intro_node"
  have n: "map_of (nodes ?t) ''start'' = Some ?n"
    by (simp add: convertToEngineFormat_def intro_tree_def)
  have oe: "onEnter ?n = Some [SetFlag ''met_maybelle'' (FBool True)]"
    and ch: "choices ?n = None"
    by (simp_all add: convertNode_def intro_node_def)
  let ?s1 = "s\<lparr>currentNode := Some ?n\<rparr>"
  let ?s2 = "?s1\<lparr>scripts := (scripts ?s1)\<lparr>world :=
                 recordDialogueVisit (treeId ?t @ '':'' @ ''start'') (world (scripts ?s1))\<rparr>\<rparr>"
  from onEnter_runs_at_once [of always_true "''met_maybelle''" "FBool True" "AfterOnEnter ?n" ?s2]
  obtain s' where aw: "await_script always_true [SetFlag ''met_maybelle'' (FBool True)]
         (AfterOnEnter ?n) ?s2 = (Some (AfterOnEnter ?n), s')"
    and ct': "currentTree s' = currentTree ?s2"
    and fl': "isRunningScript (scripts s') = False"
    and tk': "tasks (scripts s') = tasks (scripts ?s2)"
    by blast
  have st1: "dstep always_true (EnterNode ''start'') s = (Some (AfterOnEnter ?n), s')"
    using ct n oe aw by (simp add: Let_def)
  let ?s3 = "demit (NodeEnter ?n (currentTree s')) s'"
  have st2: "dstep always_true (AfterOnEnter ?n) s' = (None, ?s3)"
    using ch by (simp add: Let_def)
  have "drun 3 always_true (EnterNode ''start'') s = Some ?s3"
    using st1 st2 by (simp add: numeral_3_eq_3)
  moreover have "currentTree ?s3 = Some ?t" using ct' ct by (simp add: demit_def)
  moreover have "isRunningScript (scripts ?s3) = False" using fl' by (simp add: demit_def)
  moreover have "tasks (scripts ?s3) = tasks (scripts s)" using tk' by (simp add: demit_def)
  ultimately show ?thesis by blast
qed

lemma first_registered_pick:
  "entered_tree (startDialogue 3 always_true ''maybelle'' None
       (snd (loadDialogueFile maybelle_file (empty_loader, initial_manager))))
     = Some ''intro''"
proof -
  let ?s = "snd (loadDialogueFile maybelle_file (empty_loader, initial_manager))"
  let ?t = "convertToEngineFormat intro_tree"
  let ?s1 = "?s\<lparr>currentTree := Some ?t, isDialogueActive := True\<rparr>"
  have f: "find (\<lambda>t. characterId t = ''maybelle'') (map snd (dialogueTrees ?s)) = Some ?t"
    by (simp add: loaded_trees convertToEngineFormat_def intro_tree_def)
  have sd: "startDialogue 3 always_true ''maybelle'' None ?s = drun 3 always_true (EnterNode ''start'') ?s1"
    using f by (simp add: startDialogue_def convertToEngineFormat_def intro_tree_def)
  from enter_intro [of ?s1] obtain s3
    where "drun 3 always_true (EnterNode ''start'') ?s1 = Some s3" and "currentTree s3 = Some ?t"
    by auto
  with sd show ?thesis
    by (simp add: entered_tree_def convertToEngineFormat_def intro_tree_def)
qed

theorem startDialogue_first_registered_witness:
  "distinct (map treeId [convertToEngineFormat intro_tree, convertToEngineFormat quest_tree]) \<and>
   dialogueTrees initial_manager = [] \<and>
   entered_tree (startDialogue 3 always_true ''maybelle'' None
      (register_all [convertToEngineFormat intro_tree, convertToEngineFormat quest_tree] initial_manager))
     = Some ''intro''"
proof -
  let ?t = "convertToEngineFormat intro_tree"
  let ?ts = "[?t, convertToEngineFormat quest_tree]"
  let ?s = "register_all ?ts initial_manager"
  let ?s1 = "?s\<lparr>currentTree := Some ?t, isDialogueActive := True\<rparr>"
  have d: "distinct (map treeId ?ts)"
    by (simp add: convertToEngineFormat_def intro_tree_def quest_tree_def)
  have e: "dialogueTrees initial_manager = []"
    by (simp add: initial_manager_def)
  have f: "find (\<lambda>t. characterId t = ''maybelle'') ?ts = Some ?t"
    by (simp add: convertToEngineFormat_def intro_tree_def)
  have sn: "startNode ?t = ''start''"
    by (simp add: convertToEngineFormat_def intro_tree_def)
  from startDialogue_first_registered [OF d e, of 3 always_true "''maybelle''"] f sn
  have sd: "startDialogue 3 always_true ''maybelle'' None ?s = drun 3 always_true (EnterNode ''start'') ?s1"
    by simp
  from enter_intro [of ?s1] obtain s3
    where "drun 3 always_true (EnterNode ''start'') ?s1 = Some s3" and "currentTree s3 = Some ?t"
    by auto
  with sd have "entered_tree (startDialogue 3 always_true ''maybelle'' None ?s) = Some ''intro''"
    by (simp add: entered_tree_def convertToEngineFormat_def intro_tree_def)
  with d e show ?thesis by blast
qed

text \<open>
  The claim as stated fails: with a low-priority tree registered before a high-priority
  one, selection by priority gives the second, \<open>startDialogue\<close> enters the first.
\<close>

theorem startDialogue_priority_counterexample:
  "chosen_id (findDialogueForCharacter always_true ''maybelle''
       (fst (loadDialogueFile maybelle_file (empty_loader, initial_manager))) createInitialState)
     = Some ''quest'' \<and>
   entered_tree (startDialogue 3 always_true ''maybelle'' None
       (snd (loadDialogueFile maybelle_file (empty_loader, initial_manager))))
     = Some ''intro''"
  using priority_pick first_registered_pick by simp


subsection \<open>The script-running flag under nested runs\<close>

lemma guarded_Cons: "f \<noteq> FFinally \<Longrightarrow> guarded (f # k) = guarded k"
  by (cases k) (auto simp: guarded_def)

lemma guarded_Finally: "guarded (FFinally # k) \<Longrightarrow> k = []"
  by (cases k) (auto simp: guarded_def)

lemma guarded_append: "FFinally \<notin> set k' \<Longrightarrow> guarded k \<Longrightarrow> guarded (k' @ k)"
  by (induction k') (auto simp: guarded_Cons)

lemma executeCommand_flag:
  "executeCommand js tid c r = (x, r') \<Longrightarrow>
     isRunningScript r' = isRunningScript r \<and> (\<forall>p k'. x = Suspend p k' \<longrightarrow> FFinally \<notin> set k')"
  by (cases c)
     (auto simp: Let_def emit_def waitForDialogueDismiss_def waitForDialogueComplete_def
        waitForWalkComplete_def split: prod.splits if_splits option.splits)

lemma exec_flag:
  "exec js tid k r = (res, r') \<Longrightarrow> guarded k \<Longrightarrow> isRunningScript r \<Longrightarrow>
     (case res of
        None \<Rightarrow> \<not> isRunningScript r'
      | Some (p, k') \<Rightarrow> isRunningScript r' \<and> guarded k')"
proof (induction js tid k r arbitrary: res r' rule: exec.induct)
  case (1 js tid r)
  then show ?case by (simp add: guarded_def)
next
  case (2 js tid k r)
  from "2.prems" have e: "exec js tid k r = (res, r')" and g: "guarded k"
    by (simp_all add: guarded_Cons)
  from "2.IH" [OF e g "2.prems"(3)] show ?case .
next
  case (3 js tid c cs k r)
  obtain x r1 where ec: "executeCommand js tid c r = (x, r1)" by (cases "executeCommand js tid c r")
  note f = executeCommand_flag [OF ec]
  from "3.prems" have g: "guarded k" by (simp add: guarded_Cons)
  from f "3.prems" have fl: "isRunningScript r1" by simp
  show ?case
  proof (cases x)
    case Done
    with ec "3.prems" have e: "exec js tid (FCmds cs # k) r1 = (res, r')" by simp
    have "guarded (FCmds cs # k)" using g by (simp add: guarded_Cons)
    from "3.IH"(1) [OF ec [symmetric] Done e this fl] show ?thesis .
  next
    case (Suspend p k')
    with ec "3.prems" have res: "res = Some (p, k' @ FCmds cs # k)" and r': "r' = r1" by auto
    from f Suspend have "FFinally \<notin> set k'" by blast
    then have "guarded (k' @ FCmds cs # k)"
      by (rule guarded_append) (use g in \<open>simp add: guarded_Cons\<close>)
    with res r' fl show ?thesis by simp
  next
    case (Call cmds)
    with ec "3.prems" have e: "exec js tid (FCmds cmds # FCmds cs # k) r1 = (res, r')" by simp
    have "guarded (FCmds cmds # FCmds cs # k)" using g by (simp add: guarded_Cons)
    from "3.IH"(2) [OF ec [symmetric] Call e this fl] show ?thesis .
  qed
next
  case (4 js tid room pos k r)
  then show ?case by (auto simp: emit_def guarded_Cons)
next
  case (5 js tid k r)
  from "5.prems"(2) have k: "k = []" by (rule guarded_Finally)
  with "5.prems"(1) show ?case by auto
qed

lemma finish_flagged:
  assumes e: "exec js tid k r0 = (res, r1)"
    and t: "tasks r0 = []" and c: "tid \<notin> set (completed r0)"
    and g: "guarded k" and fl: "isRunningScript r0"
  shows "solo_flagged tid (finish tid (res, r1))"
proof -
  note f = exec_fields [OF e]
  note w = exec_flag [OF e g fl]
  show ?thesis
  proof (cases res)
    case None
    with w f t show ?thesis by (simp add: finish_def solo_flagged_def)
  next
    case (Some pk)
    obtain p k' where pk: "pk = (p, k')" by (cases pk)
    with Some w f t c show ?thesis by (simp add: finish_def solo_flagged_def)
  qed
qed

lemma resume_flagged:
  assumes s: "solo_flagged tid r"
    and f: "tasks r' = tasks r" "isRunningScript r' = isRunningScript r" "completed r' = completed r"
  shows "solo_flagged tid (resume js t r')"
proof (cases "tasks r")
  case Nil
  with f have "resume js t r' = r'" by (simp add: resume_def)
  with s f Nil show ?thesis by (simp add: solo_flagged_def)
next
  case (Cons a rest)
  with s obtain p k where tk: "tasks r = [(tid, p, k)]" and c: "tid \<notin> set (completed r)"
    and fl: "isRunningScript r" and g: "guarded k"
    by (auto simp: solo_flagged_def)
  show ?thesis
  proof (cases "t = tid")
    case False
    with tk f have "resume js t r' = r'" by (simp add: resume_def)
    with s f tk show ?thesis by (simp add: solo_flagged_def)
  next
    case True
    let ?r0 = "r'\<lparr>tasks := filter (\<lambda>t. fst t \<noteq> tid) (tasks r')\<rparr>"
    obtain res r1 where e: "exec js tid k ?r0 = (res, r1)" by (cases "exec js tid k ?r0")
    have r: "resume js t r' = finish tid (res, r1)"
      using True tk f e by (simp add: resume_def)
    have "solo_flagged tid (finish tid (res, r1))"
      by (rule finish_flagged [OF e]) (use tk f c g fl in simp_all)
    with r show ?thesis by simp
  qed
qed

lemma deliver_flagged: "solo_flagged tid r \<Longrightarrow> solo_flagged tid (deliver js sg r)"
proof (cases sg)
  case SigDismissed
  assume s: "solo_flagged tid r"
  show ?thesis
  proof (cases "dialogueDismissResolve r")
    case None
    with s SigDismissed show ?thesis by (simp add: signalDialogueDismissed_def)
  next
    case (Some t)
    have "solo_flagged tid (resume js t (r\<lparr>dialogueDismissResolve := None\<rparr>))"
      by (rule resume_flagged [OF s]) simp_all
    with Some SigDismissed show ?thesis by (simp add: signalDialogueDismissed_def)
  qed
next
  case SigDialogueComplete
  assume s: "solo_flagged tid r"
  show ?thesis
  proof (cases "dialogueCompleteResolve r")
    case None
    with s SigDialogueComplete show ?thesis by (simp add: signalDialogueComplete_def)
  next
    case (Some t)
    have "solo_flagged tid (resume js t (r\<lparr>dialogueCompleteResolve := None\<rparr>))"
      by (rule resume_flagged [OF s]) simp_all
    with Some SigDialogueComplete show ?thesis by (simp add: signalDialogueComplete_def)
  qed
next
  case (SigWalkComplete cid)
  assume s: "solo_flagged tid r"
  show ?thesis
  proof (cases "map_of (walkCompleteResolvers r) cid")
    case None
    with s SigWalkComplete show ?thesis by (simp add: signalWalkComplete_def)
  next
    case (Some t)
    have "solo_flagged tid (resume js t (r\<lparr>walkCompleteResolvers := AList.delete cid (walkCompleteResolvers r)\<rparr>))"
      by (rule resume_flagged [OF s]) simp_all
    with Some SigWalkComplete show ?thesis by (simp add: signalWalkComplete_def)
  qed
next
  case (SigTimeout t)
  assume s: "solo_flagged tid r"
  have "solo_flagged tid (resume js t r)"
    by (rule resume_flagged [OF s]) simp_all
  with s SigTimeout show ?thesis
    by (auto simp: timeout_fires_def split: option.splits pending.splits)
qed

lemma deliver_all_flagged: "solo_flagged tid r \<Longrightarrow> solo_flagged tid (deliver_all js sigs r)"
proof (induction sigs arbitrary: r)
  case Nil
  then show ?case by (simp add: deliver_all_def)
next
  case (Cons sg sigs)
  from Cons.IH [OF deliver_flagged [OF Cons.prems]] show ?case by (simp add: deliver_all_def)
qed

lemma runScriptWithContext_flagged:
  assumes "idle r"
  shows "solo_flagged (next_task r) (runScriptWithContext js cmds r)"
proof -
  let ?r0 = "r\<lparr>isRunningScript := True, next_task := Suc (next_task r)\<rparr>"
  obtain res r1 where e: "exec js (next_task r) [FCmds cmds, FFinally] ?r0 = (res, r1)"
    by (cases "exec js (next_task r) [FCmds cmds, FFinally] ?r0")
  have "solo_flagged (next_task r) (finish (next_task r) (res, r1))"
    by (rule finish_flagged [OF e]) (use assms in \<open>simp_all add: idle_def guarded_def\<close>)
  with e show ?thesis by (simp add: runScriptWithContext_def start_task_def)
qed

text \<open>
  A run that no other run overlaps: whatever signals arrive, the flag reads true exactly
  as long as the list has not drained.
\<close>

lemma running_flag_of_single_run:
  assumes "idle r"
  shows "getIsRunningScript (deliver_all js sigs (runScriptWithContext js cmds r)) =
           (next_task r \<notin> set (completed (deliver_all js sigs (runScriptWithContext js cmds r))))"
  using deliver_all_flagged [OF runScriptWithContext_flagged [OF assms], of js sigs js cmds]
  by (auto simp: solo_flagged_def getIsRunningScript_def)

lemma talk_started_runner:
  "isRunningScript (scripts talk_started) = True \<and>
   tasks (scripts talk_started) = [(0, AwaitDialogueComplete, [FCmds [], FFinally])]"
  by (simp add: talk_started_def runScriptWithContext_def start_task_def finish_def
        initial_runner_def emit_def waitForDialogueComplete_def)

text \<open>
  C5 at the failing input.  A top-level list \<open>[startDialogue maybelle]\<close> is running:
  the flag reads true and the task waits for the dialogue to complete.  The dialogue
  starts; its start node has an enter script, which \<open>enterNode\<close> runs with
  \<open>runScriptWithContext\<close>.  Afterwards the top-level task is still waiting, and the flag
  reads false.  (For a run that nothing overlaps the flag is right, by
  \<open>running_flag_of_single_run\<close>.)
\<close>

theorem nested_run_clears_running_flag:
  "running_flag (Some talk_started) = Some True \<and>
   suspended_tasks (Some talk_started) = [(0, AwaitDialogueComplete)] \<and>
   running_flag (startDialogue 3 always_true ''maybelle'' None talk_started) = Some False \<and>
   suspended_tasks (startDialogue 3 always_true ''maybelle'' None talk_started) = [(0, AwaitDialogueComplete)]"
proof -
  let ?t = "convertToEngineFormat intro_tree"
  let ?s1 = "talk_started\<lparr>currentTree := Some ?t, isDialogueActive := True\<rparr>"
  have dt: "dialogueTrees talk_started =
     [(''intro'', convertToEngineFormat intro_tree), (''quest'', convertToEngineFormat quest_tree)]"
    using loaded_trees by (simp add: talk_started_def)
  have f: "find (\<lambda>t. characterId t = ''maybelle'') (map snd (dialogueTrees talk_started)) = Some ?t"
    by (simp add: dt convertToEngineFormat_def intro_tree_def)
  have sd: "startDialogue 3 always_true ''maybelle'' None talk_started =
              drun 3 always_true (EnterNode ''start'') ?s1"
    using f by (simp add: startDialogue_def convertToEngineFormat_def intro_tree_def)
  from enter_intro [of ?s1] obtain s3
    where r: "drun 3 always_true (EnterNode ''start'') ?s1 = Some s3"
      and fl: "isRunningScript (scripts s3) = False"
      and tk: "tasks (scripts s3) = tasks (scripts ?s1)"
    by auto
  show ?thesis
    using sd r fl tk talk_started_runner
    by (simp add: running_flag_def suspended_tasks_def getIsRunningScript_def)
qed


subsection \<open>Where a path begins and ends\<close>

lemma reconstruct_nonempty: "reconstruct n \<noteq> []"
  by (cases n) simp

lemma last_reconstruct: "last (reconstruct n) = node_point n"
  by (cases n) simp

lemma hd_reconstruct: "hd (reconstruct n) = root_point n"
proof (induction n rule: reconstruct.induct)
  case (1 p g h f par)
  show ?case
  proof (cases par)
    case None
    then show ?thesis by simp
  next
    case (Some m)
    with 1 reconstruct_nonempty [of m] show ?thesis by simp
  qed
qed

lemma furthest_visible_bounds:
  assumes "current < length path - 1"
  shows "current < furthest_visible path poly current \<and> furthest_visible path poly current \<le> length path - 1"
proof (cases "find (\<lambda>i. canWalkDirectly (path ! current) (path ! i) poly) (rev [current + 2 ..< length path])")
  case None
  with assms show ?thesis by (simp add: furthest_visible_def)
next
  case (Some i)
  then have "i \<in> set (rev [current + 2 ..< length path])"
    by (metis find_Some_iff nth_mem)
  then have "current + 2 \<le> i" "i < length path" by simp_all
  then have "current < i" "i \<le> length path - 1" by linarith+
  with Some show ?thesis by (simp add: furthest_visible_def)
qed

lemma smooth_loop_ends:
  "smoothed \<noteq> [] \<Longrightarrow> last smoothed = path ! current \<Longrightarrow> current \<le> length path - 1 \<Longrightarrow>
     smooth_loop path poly current smoothed \<noteq> [] \<and>
     hd (smooth_loop path poly current smoothed) = hd smoothed \<and>
     last (smooth_loop path poly current smoothed) = path ! (length path - 1)"
proof (induction path poly current smoothed rule: smooth_loop.induct)
  case (1 path poly current smoothed)
  show ?case
  proof (cases "current < length path - 1")
    case True
    let ?fu = "furthest_visible path poly current"
    from furthest_visible_bounds [OF True, of poly] have b: "?fu \<le> length path - 1" by simp
    have "smooth_loop path poly ?fu (smoothed @ [path ! ?fu]) \<noteq> [] \<and>
          hd (smooth_loop path poly ?fu (smoothed @ [path ! ?fu])) = hd (smoothed @ [path ! ?fu]) \<and>
          last (smooth_loop path poly ?fu (smoothed @ [path ! ?fu])) = path ! (length path - 1)"
      by (rule "1.IH" [OF True refl]) (use b in simp_all)
    moreover have "smooth_loop path poly current smoothed = smooth_loop path poly ?fu (smoothed @ [path ! ?fu])"
      using True by (subst smooth_loop.simps) (simp add: Let_def)
    ultimately show ?thesis using "1.prems"(1) by simp
  next
    case False
    with "1.prems" have c: "current = length path - 1" by simp
    have "smooth_loop path poly current smoothed = smoothed"
      using False by (subst smooth_loop.simps) simp
    with "1.prems" c show ?thesis by simp
  qed
qed

lemma smoothPath_ends:
  assumes "path \<noteq> []"
  shows "smoothPath path poly \<noteq> [] \<and> hd (smoothPath path poly) = hd path \<and>
         last (smoothPath path poly) = last path"
proof (cases "length path \<le> 2")
  case True
  with assms show ?thesis by (simp add: smoothPath_def)
next
  case False
  have "smooth_loop path poly 0 [path ! 0] \<noteq> [] \<and>
        hd (smooth_loop path poly 0 [path ! 0]) = hd [path ! 0] \<and>
        last (smooth_loop path poly 0 [path ! 0]) = path ! (length path - 1)"
    by (rule smooth_loop_ends) simp_all
  with False assms show ?thesis
    by (simp add: smoothPath_def hd_conv_nth last_conv_nth)
qed

lemma update_first_roots:
  "\<forall>n\<in>set xs. root_point n = s \<Longrightarrow> root_point c = s \<Longrightarrow>
     \<forall>n\<in>set (update_first P (\<lambda>n. PathNode (node_point n) a (node_h n) b (Some c)) xs). root_point n = s"
  by (induction xs) auto

lemma relax_roots:
  assumes "\<forall>n\<in>set ops. root_point n = s" and "root_point current = s"
  shows "\<forall>n\<in>set (relax poly actualEnd closedSet current ops np). root_point n = s"
  using assms update_first_roots [OF assms]
  by (auto simp: relax_def Let_def split: option.splits)

lemma foldl_relax_roots:
  "\<forall>n\<in>set ops. root_point n = s \<Longrightarrow> root_point current = s \<Longrightarrow>
     \<forall>n\<in>set (foldl (relax poly actualEnd closedSet current) ops ns). root_point n = s"
proof (induction ns arbitrary: ops)
  case Nil
  then show ?case by simp
next
  case (Cons n ns)
  from Cons.IH [OF relax_roots [OF Cons.prems] Cons.prems(2)] show ?case by simp
qed

lemma astar_result:
  "\<forall>n\<in>set openSet. root_point n = s \<Longrightarrow> astar poly mesh actualEnd openSet closedSet = Some path \<Longrightarrow>
     path \<noteq> [] \<and> hd path = s \<and> distance (last path) actualEnd < 5"
proof (induction poly mesh actualEnd openSet closedSet rule: astar.induct)
  case (1 poly mesh actualEnd openSet closedSet)
  show ?case
  proof (cases "sort_key node_f openSet")
    case Nil
    with "1.prems"(2) show ?thesis by (subst (asm) astar.simps) simp
  next
    case (Cons current rest)
    have "set (current # rest) = set openSet" using Cons by (metis set_sort)
    with "1.prems"(1) have rc: "root_point current = s" and rr: "\<forall>n\<in>set rest. root_point n = s"
      by auto
    show ?thesis
    proof (cases "distance (node_point current) actualEnd < 5")
      case True
      with Cons "1.prems"(2) have p: "path = smoothPath (reconstruct current) poly"
        by (subst (asm) astar.simps) simp
      from smoothPath_ends [OF reconstruct_nonempty, of current poly] p True rc
      show ?thesis by (simp add: hd_reconstruct last_reconstruct)
    next
      case False
      let ?closed = "node_point current # closedSet"
      let ?open = "foldl (relax poly actualEnd ?closed current) rest mesh"
      from Cons False "1.prems"(2) have r: "astar poly mesh actualEnd ?open ?closed = Some path"
        by (subst (asm) astar.simps) (simp add: Let_def)
      have inv: "\<forall>n\<in>set ?open. root_point n = s"
        by (rule foldl_relax_roots [OF rr rc])
      from "1.IH" [OF Cons False refl inv r] show ?thesis .
    qed
  qed
qed

lemma canWalkDirectly_inside: "canWalkDirectly a b poly \<Longrightarrow> isPointInPolygon b poly"
  by (auto simp: canWalkDirectly_def split: if_splits)

lemma update_first_points:
  "\<forall>n\<in>set xs. Q (node_point n) \<Longrightarrow>
     \<forall>n\<in>set (update_first P (\<lambda>n. PathNode (node_point n) a (node_h n) b c) xs). Q (node_point n)"
  by (induction xs) auto

lemma relax_points:
  assumes "\<forall>n\<in>set ops. node_point n = s \<or> isPointInPolygon (node_point n) poly"
  shows "\<forall>n\<in>set (relax poly actualEnd closedSet current ops np).
           node_point n = s \<or> isPointInPolygon (node_point n) poly"
  using assms update_first_points [of ops "\<lambda>q. q = s \<or> isPointInPolygon q poly"] canWalkDirectly_inside
  by (auto simp: relax_def Let_def split: option.splits)

lemma foldl_relax_points:
  "\<forall>n\<in>set ops. node_point n = s \<or> isPointInPolygon (node_point n) poly \<Longrightarrow>
     \<forall>n\<in>set (foldl (relax poly actualEnd closedSet current) ops ns).
        node_point n = s \<or> isPointInPolygon (node_point n) poly"
proof (induction ns arbitrary: ops)
  case Nil
  then show ?case by simp
next
  case (Cons n ns)
  from Cons.IH [OF relax_points [OF Cons.prems]] show ?case by simp
qed

lemma astar_result_inside:
  "\<forall>n\<in>set openSet. node_point n = s \<or> isPointInPolygon (node_point n) poly \<Longrightarrow>
   astar poly mesh actualEnd openSet closedSet = Some path \<Longrightarrow>
     last path = s \<or> isPointInPolygon (last path) poly"
proof (induction poly mesh actualEnd openSet closedSet rule: astar.induct)
  case (1 poly mesh actualEnd openSet closedSet)
  show ?case
  proof (cases "sort_key node_f openSet")
    case Nil
    with "1.prems"(2) show ?thesis by (subst (asm) astar.simps) simp
  next
    case (Cons current rest)
    have "set (current # rest) = set openSet" using Cons by (metis set_sort)
    with "1.prems"(1)
    have rc: "node_point current = s \<or> isPointInPolygon (node_point current) poly"
      and rr: "\<forall>n\<in>set rest. node_point n = s \<or> isPointInPolygon (node_point n) poly"
      by auto
    show ?thesis
    proof (cases "distance (node_point current) actualEnd < 5")
      case True
      with Cons "1.prems"(2) have p: "path = smoothPath (reconstruct current) poly"
        by (subst (asm) astar.simps) simp
      from smoothPath_ends [OF reconstruct_nonempty, of current poly] p rc
      show ?thesis by (simp add: last_reconstruct)
    next
      case False
      let ?closed = "node_point current # closedSet"
      let ?open = "foldl (relax poly actualEnd ?closed current) rest mesh"
      from Cons False "1.prems"(2) have r: "astar poly mesh actualEnd ?open ?closed = Some path"
        by (subst (asm) astar.simps) (simp add: Let_def)
      have inv: "\<forall>n\<in>set ?open. node_point n = s \<or> isPointInPolygon (node_point n) poly"
        by (rule foldl_relax_points [OF rr])
      from "1.IH" [OF Cons False refl inv r] show ?thesis .
    qed
  qed
qed

lemma foldl_closer_Some:
  "fst acc \<noteq> None \<Longrightarrow> fst (foldl (closer p) acc es) \<noteq> None"
  by (induction es arbitrary: acc) (auto simp: closer_def Let_def split: prod.splits)

lemma getClosestPointInPolygon_returns:
  assumes "nonempty_polygon poly"
  shows "\<exists>q. getClosestPointInPolygon p poly = Inr q \<and> (isPointInPolygon p poly \<longrightarrow> q = p)"
proof (cases "isPointInPolygon p poly")
  case True
  then show ?thesis by (simp add: getClosestPointInPolygon_def)
next
  case False
  from assms obtain a ps where ps: "points poly = a # ps"
    by (cases "points poly") (auto simp: nonempty_polygon_def)
  let ?acc = "foldl (closer p) (Some a, None) (zip (a # ps) (rotate1 (a # ps)))"
  have "fst ?acc \<noteq> None" by (rule foldl_closer_Some) simp
  then obtain c where c: "fst ?acc = Some c" by auto
  show ?thesis
    using False ps c by (simp add: getClosestPointInPolygon_def Let_def)
qed

text \<open>
  C1, as amended.  For a polygon with at least one vertex, \<open>findPath\<close> returns a
  non-empty path.  Its first point is the projected start (the start itself when that
  is inside the polygon).  Its last point is the projected end, or else a point less
  than 5 away from the projected end that lies inside the polygon or is the projected
  start: the search stops at the first node it takes within that radius.
\<close>

theorem findPath_endpoints:
  assumes "nonempty_polygon poly"
  shows "\<exists>actualStart actualEnd path.
           getClosestPointInPolygon start poly = Inr actualStart \<and>
           getClosestPointInPolygon endp poly = Inr actualEnd \<and>
           (isPointInPolygon start poly \<longrightarrow> actualStart = start) \<and>
           (isPointInPolygon endp poly \<longrightarrow> actualEnd = endp) \<and>
           findPath start endp poly = Inr path \<and> path \<noteq> [] \<and> hd path = actualStart \<and>
           (last path = actualEnd \<or>
            distance (last path) actualEnd < 5 \<and>
            (last path = actualStart \<or> isPointInPolygon (last path) poly))"
proof -
  from getClosestPointInPolygon_returns [OF assms, of start] obtain s
    where s: "getClosestPointInPolygon start poly = Inr s" "isPointInPolygon start poly \<longrightarrow> s = start"
    by blast
  from getClosestPointInPolygon_returns [OF assms, of endp] obtain e
    where e: "getClosestPointInPolygon endp poly = Inr e" "isPointInPolygon endp poly \<longrightarrow> e = endp"
    by blast
  let ?nodes = "generateNavNodes poly @ [s, e]"
  let ?start = "PathNode s 0 (distance s e) (distance s e) None"
  have "\<exists>path. findPath start endp poly = Inr path \<and> path \<noteq> [] \<and> hd path = s \<and>
          (last path = e \<or>
           distance (last path) e < 5 \<and> (last path = s \<or> isPointInPolygon (last path) poly))"
  proof (cases "canWalkDirectly s e poly")
    case True
    with s e show ?thesis by (simp add: findPath_def)
  next
    case False
    show ?thesis
    proof (cases "astar poly ?nodes e [?start] []")
      case None
      with False s e show ?thesis by (simp add: findPath_def Let_def)
    next
      case (Some path)
      have a: "\<forall>n\<in>set [?start]. root_point n = s" by simp
      have b: "\<forall>n\<in>set [?start]. node_point n = s \<or> isPointInPolygon (node_point n) poly" by simp
      from astar_result [OF a Some] astar_result_inside [OF b Some] False s e Some show ?thesis
        by (simp add: findPath_def Let_def)
    qed
  qed
  with s e show ?thesis by blast
qed

lemma notch_left_inside: "isPointInPolygon (Point 4 5) notched_room"
  by (simp add: isPointInPolygon_def notched_room_def edge_pairs_def crosses_def)

lemma notch_right_inside: "isPointInPolygon (Point 6 5) notched_room"
  by (simp add: isPointInPolygon_def notched_room_def edge_pairs_def crosses_def)

lemma notch_outside: "\<not> isPointInPolygon (Point 5 5) notched_room"
  by (simp add: isPointInPolygon_def notched_room_def edge_pairs_def crosses_def)

lemma notch_sides_distance: "distance (Point 4 5) (Point 6 5) = 2"
  by (simp add: distance_def)

lemma square_room_direct: "canWalkDirectly (Point 2 2) (Point 8 7) square_room"
  by (simp add: canWalkDirectly_def isPointInPolygon_def square_room_def edge_pairs_def crosses_def upt_rec)

lemma notch_blocks_direct: "\<not> canWalkDirectly (Point 4 5) (Point 6 5) notched_room"
  using notch_outside by (simp add: canWalkDirectly_def)

lemma astar_at_goal:
  "distance p actualEnd < 5 \<Longrightarrow>
     astar poly mesh actualEnd [PathNode p g h f None] closedSet = Some [p]"
  by (subst astar.simps) (simp add: smoothPath_def)

theorem findPath_endpoints_witness:
  "nonempty_polygon square_room \<and>
   findPath (Point 2 2) (Point 8 7) square_room = Inr [Point 2 2, Point 8 7] \<and>
   (\<exists>path. findPath (Point 2 2) (Point 8 7) square_room = Inr path \<and> path \<noteq> [] \<and>
           hd path = Point 2 2 \<and> last path = Point 8 7)"
proof -
  have n: "nonempty_polygon square_room"
    by (simp add: nonempty_polygon_def square_room_def)
  have i1: "isPointInPolygon (Point 2 2) square_room"
    and i2: "isPointInPolygon (Point 8 7) square_room"
    using square_room_direct by (auto simp: canWalkDirectly_def split: if_splits)
  have s: "getClosestPointInPolygon (Point 2 2) square_room = Inr (Point 2 2)"
    using i1 by (simp add: getClosestPointInPolygon_def)
  have e: "getClosestPointInPolygon (Point 8 7) square_room = Inr (Point 8 7)"
    using i2 by (simp add: getClosestPointInPolygon_def)
  have f: "findPath (Point 2 2) (Point 8 7) square_room = Inr [Point 2 2, Point 8 7]"
    using s e square_room_direct by (simp add: findPath_def)
  from findPath_endpoints [OF n, of "Point 2 2" "Point 8 7"] s e f
  have "\<exists>path. findPath (Point 2 2) (Point 8 7) square_room = Inr path \<and> path \<noteq> [] \<and>
           hd path = Point 2 2 \<and> last path = Point 8 7"
    by auto
  with n f show ?thesis by blast
qed

text \<open>
  The claim as stated fails: start and end lie inside the polygon, 2 apart on either
  side of a notch, and the returned path is the start alone.
\<close>

theorem findPath_stops_short_counterexample:
  "getClosestPointInPolygon (Point 4 5) notched_room = Inr (Point 4 5) \<and>
   getClosestPointInPolygon (Point 6 5) notched_room = Inr (Point 6 5) \<and>
   findPath (Point 4 5) (Point 6 5) notched_room = Inr [Point 4 5]"
proof -
  have s: "getClosestPointInPolygon (Point 4 5) notched_room = Inr (Point 4 5)"
    using notch_left_inside by (simp add: getClosestPointInPolygon_def)
  have e: "getClosestPointInPolygon (Point 6 5) notched_room = Inr (Point 6 5)"
    using notch_right_inside by (simp add: getClosestPointInPolygon_def)
  have "distance (Point 4 5) (Point 6 5) < 5" by (simp add: notch_sides_distance)
  from astar_at_goal [OF this] s e notch_blocks_direct
  have "findPath (Point 4 5) (Point 6 5) notched_room = Inr [Point 4 5]"
    by (simp add: findPath_def Let_def)
  with s e show ?thesis by simp
qed


subsection \<open>A click replaces the queue\<close>

lemma getHotspotAt_queue [simp]:
  "getHotspotAt js p (s\<lparr>actionQueue := q\<rparr>) = getHotspotAt js p s"
  "getHotspotAt js p (s\<lparr>currentAction := c\<rparr>) = getHotspotAt js p s"
  "getHotspotAt js p (s\<lparr>sceneConsole := l\<rparr>) = getHotspotAt js p s"
  by (simp_all add: getHotspotAt_def split: option.splits)

lemma getExitAt_queue [simp]:
  "getExitAt js p (s\<lparr>actionQueue := q\<rparr>) = getExitAt js p s"
  "getExitAt js p (s\<lparr>currentAction := c\<rparr>) = getExitAt js p s"
  "getExitAt js p (s\<lparr>sceneConsole := l\<rparr>) = getExitAt js p s"
  by (simp_all add: getExitAt_def split: option.splits)

lemma hotspot_chain_queue [simp]:
  "hotspot_chain h (s\<lparr>actionQueue := q\<rparr>) = hotspot_chain h s"
  "hotspot_chain h (s\<lparr>currentAction := c\<rparr>) = hotspot_chain h s"
  "hotspot_chain h (s\<lparr>sceneConsole := l\<rparr>) = hotspot_chain h s"
  by (simp_all add: hotspot_chain_def split: option.splits)

lemma processNextAction_forgets_current:
  "processNextAction (s\<lparr>currentAction := c, actionQueue := a # r\<rparr>) =
   processNextAction (s\<lparr>currentAction := None, actionQueue := a # r\<rparr>)"
  by (subst processNextAction.simps, subst (2) processNextAction.simps) simp

lemma chain_nonempty [simp]: "hotspot_chain h s \<noteq> []" "exit_chain ex \<noteq> []"
  by (simp_all add: hotspot_chain_def exit_chain_def)



lemma handlers_pending [simp]:
  "pending_actions (handleUse hid s) = pending_actions s"
  "pending_actions (handleUseItem hid iid s) = pending_actions s"
  "pending_actions (handleLook hid s) = pending_actions s"
  "pending_actions (handleTalk cid s) = pending_actions s"
  "pending_actions (start_script cmds b s) = pending_actions s"
  by (auto simp: pending_actions_def handleUse_def handleUseItem_def handleLook_def handleTalk_def
        start_script_def Let_def split: option.splits)


lemma click_chain_queue [simp]:
  "click_chain js p (s\<lparr>actionQueue := q\<rparr>) = click_chain js p s"
  "click_chain js p (s\<lparr>currentAction := c\<rparr>) = click_chain js p s"
  by (simp_all add: click_chain_def split: option.splits)





end
